theory Spec2Isabelle
  imports Complex_Main "HOL-Library.AList" "HOL-Library.Sublist"
begin

section \<open>JavaScript values\<close>

subsection \<open>Numbers\<close>

text \<open>
  A JavaScript number is modelled as a real extended by the three non-finite values of
  IEEE 754. Finite arithmetic is exact (the rounding of doubles is not modelled) and there
  is no negative zero; every other case of the operators below follows ECMAScript:
  a division by zero yields an infinity or \<open>NaN\<close>, and every comparison with
  \<open>NaN\<close> is false.
\<close>

datatype number = Num real | PosInfinity | NegInfinity | NaN

fun js_add :: "number \<Rightarrow> number \<Rightarrow> number" where
  "js_add (Num a) (Num b) = Num (a + b)"
| "js_add NaN _ = NaN"
| "js_add _ NaN = NaN"
| "js_add PosInfinity NegInfinity = NaN"
| "js_add NegInfinity PosInfinity = NaN"
| "js_add PosInfinity _ = PosInfinity"
| "js_add _ PosInfinity = PosInfinity"
| "js_add NegInfinity _ = NegInfinity"
| "js_add _ NegInfinity = NegInfinity"

fun js_neg :: "number \<Rightarrow> number" where
  "js_neg (Num a) = Num (- a)"
| "js_neg PosInfinity = NegInfinity"
| "js_neg NegInfinity = PosInfinity"
| "js_neg NaN = NaN"

definition js_sub :: "number \<Rightarrow> number \<Rightarrow> number" where
  "js_sub a b = js_add a (js_neg b)"

fun js_mul :: "number \<Rightarrow> number \<Rightarrow> number" where
  "js_mul (Num a) (Num b) = Num (a * b)"
| "js_mul NaN _ = NaN"
| "js_mul _ NaN = NaN"
| "js_mul (Num a) PosInfinity = (if a = 0 then NaN else if 0 < a then PosInfinity else NegInfinity)"
| "js_mul (Num a) NegInfinity = (if a = 0 then NaN else if 0 < a then NegInfinity else PosInfinity)"
| "js_mul PosInfinity (Num b) = (if b = 0 then NaN else if 0 < b then PosInfinity else NegInfinity)"
| "js_mul NegInfinity (Num b) = (if b = 0 then NaN else if 0 < b then NegInfinity else PosInfinity)"
| "js_mul PosInfinity PosInfinity = PosInfinity"
| "js_mul PosInfinity NegInfinity = NegInfinity"
| "js_mul NegInfinity PosInfinity = NegInfinity"
| "js_mul NegInfinity NegInfinity = PosInfinity"

fun js_div :: "number \<Rightarrow> number \<Rightarrow> number" where
  "js_div (Num a) (Num b) =
     (if b = 0 then (if a = 0 then NaN else if 0 < a then PosInfinity else NegInfinity)
      else Num (a / b))"
| "js_div NaN _ = NaN"
| "js_div _ NaN = NaN"
| "js_div (Num a) PosInfinity = Num 0"
| "js_div (Num a) NegInfinity = Num 0"
| "js_div PosInfinity (Num b) = (if 0 \<le> b then PosInfinity else NegInfinity)"
| "js_div NegInfinity (Num b) = (if 0 \<le> b then NegInfinity else PosInfinity)"
| "js_div PosInfinity PosInfinity = NaN"
| "js_div PosInfinity NegInfinity = NaN"
| "js_div NegInfinity PosInfinity = NaN"
| "js_div NegInfinity NegInfinity = NaN"

fun js_lt :: "number \<Rightarrow> number \<Rightarrow> bool" where
  "js_lt (Num a) (Num b) = (a < b)"
| "js_lt NaN _ = False"
| "js_lt _ NaN = False"
| "js_lt _ NegInfinity = False"
| "js_lt PosInfinity _ = False"
| "js_lt NegInfinity _ = True"
| "js_lt _ PosInfinity = True"

definition js_gt :: "number \<Rightarrow> number \<Rightarrow> bool" where
  "js_gt a b = js_lt b a"

definition js_eq :: "number \<Rightarrow> number \<Rightarrow> bool" where
  \<comment> \<open>\<open>===\<close> on numbers\<close>
  "js_eq a b = (a = b \<and> a \<noteq> NaN)"

definition js_ge :: "number \<Rightarrow> number \<Rightarrow> bool" where
  "js_ge a b = (js_gt a b \<or> js_eq a b)"

fun js_abs :: "number \<Rightarrow> number" where
  "js_abs (Num a) = Num \<bar>a\<bar>"
| "js_abs PosInfinity = PosInfinity"
| "js_abs NegInfinity = PosInfinity"
| "js_abs NaN = NaN"

subsection \<open>Strings\<close>

text \<open>
  Strings are lists of characters. \<open>toLowerCase\<close> maps the ASCII capitals, which is
  all that hexadecimal addresses and the label tables contain.
\<close>

definition lowerChar :: "char \<Rightarrow> char" where
  "lowerChar c =
     (case map_of (zip ''ABCDEFGHIJKLMNOPQRSTUVWXYZ'' ''abcdefghijklmnopqrstuvwxyz'') c of
        Some d \<Rightarrow> d
      | None \<Rightarrow> c)"

definition toLowerCase :: "string \<Rightarrow> string" where
  "toLowerCase s = map lowerChar s"

fun js_includes :: "string \<Rightarrow> string \<Rightarrow> bool" where
  \<comment> \<open>\<open>s.includes(sub)\<close>\<close>
  "js_includes [] sub = (sub = [])"
| "js_includes (c # cs) sub = (prefix sub (c # cs) \<or> js_includes cs sub)"

definition truthy :: "string option \<Rightarrow> bool" where
  \<comment> \<open>a string-valued field used as a condition: \<open>null\<close>, \<open>undefined\<close> and \<open>''''\<close> are falsy\<close>
  "truthy s = (case s of None \<Rightarrow> False | Some a \<Rightarrow> a \<noteq> [])"

subsection \<open>Exceptions and results\<close>

datatype error =
    UpstreamError string  \<comment> \<open>a rejected upstream call: network failure or non-2xx response\<close>
  | TypeError             \<comment> \<open>property access on \<open>null\<close> or \<open>undefined\<close>\<close>

text \<open>
  The fun-fact objects. \<open>data\<close> and \<open>fallback\<close> are optional properties: \<open>None\<close> is a
  property that the object literal does not have, \<open>Some None\<close> is \<open>fallback: null\<close>.
\<close>

record 'a AnalysisResult =
  type :: string
  success :: bool
  data :: "'a option"
  fallback :: "string option option"

section \<open>Upstream records\<close>

record TokenTransfer =
  tt_token_address :: "string option"
  tt_price_usd :: "number option"
  tt_value_usd :: "number option"

record Transaction =
  volume_usd :: number
  tokens_sent :: "TokenTransfer list option"
  tokens_received :: "TokenTransfer list option"

record Holding =
  token_address :: "string option"
  chain :: "string option"
  balance :: string
  value_usd :: number
  price_usd :: number

text \<open>A response of the transaction or balance endpoint is its \<open>data\<close> property, which may be missing.\<close>

type_synonym TransactionsResponse = "Transaction list option"
type_synonym BalanceResponse = "Holding list option"

section \<open>ETH benchmark (ethBenchmark.ts)\<close>

definition ETH_ADDRESS :: string where
  "ETH_ADDRESS = ''0xeeeeeeeeeeeeeeeeeeeeeeeeeeeeeeeeeeeeeeee''"

definition ETH_BENCHMARK_FALLBACK :: string where
  "ETH_BENCHMARK_FALLBACK =
     ''No meaningful history yet for young wallets, CEX-only flows excluded''"

record EthBenchmarkData =
  portfolioValue :: number
  ethEquivalentValue :: number
  performancePercent :: number
  status :: string

definition ethBenchmarkFallback :: "EthBenchmarkData AnalysisResult" where
  "ethBenchmarkFallback =
     \<lparr>type = ''eth_benchmark'', success = False, data = None,
      fallback = Some (Some ETH_BENCHMARK_FALLBACK)\<rparr>"

definition isPricedEth :: "TokenTransfer \<Rightarrow> bool" where
  \<comment> \<open>the condition of the two loops of \<open>getEthPriceFromTransaction\<close>\<close>
  "isPricedEth token =
     (truthy (tt_token_address token) \<and>
      map_option toLowerCase (tt_token_address token) = Some (toLowerCase ETH_ADDRESS) \<and>
      (case tt_price_usd token of None \<Rightarrow> False | Some p \<Rightarrow> js_gt p (Num 0)))"

fun findEthPrice :: "TokenTransfer list \<Rightarrow> number option" where
  \<comment> \<open>\<open>for (const token of ...) if (...) return token.price_usd\<close>; \<open>None\<close>: the loop ended\<close>
  "findEthPrice [] = None"
| "findEthPrice (token # rest) =
     (if isPricedEth token then tt_price_usd token else findEthPrice rest)"

definition getEthPriceFromTransaction :: "Transaction \<Rightarrow> error + number" where
  "getEthPriceFromTransaction tx =
     (case (case tokens_sent tx of None \<Rightarrow> None | Some sent \<Rightarrow> findEthPrice sent) of
        Some p \<Rightarrow> Inr p
      | None \<Rightarrow>
         (case (case tokens_received tx of None \<Rightarrow> None | Some rcvd \<Rightarrow> findEthPrice rcvd) of
            Some p \<Rightarrow> Inr p
          | None \<Rightarrow>
             if js_gt (volume_usd tx) (Num 0) then
               (case tokens_received tx of
                  None \<Rightarrow> Inl TypeError
                | Some [] \<Rightarrow> Inr (Num 0)
                | Some (tokenReceived # _) \<Rightarrow>
                    (case tt_value_usd tokenReceived of
                       None \<Rightarrow> Inr (Num 0)
                     | Some v \<Rightarrow>
                        if js_gt v (Num 0) then
                          (case tt_price_usd tokenReceived of
                             None \<Rightarrow> Inr (Num 0)
                           | Some p \<Rightarrow>
                              if js_gt p (Num 0)
                              then Inr (js_mul p (js_div (volume_usd tx) v))
                              else Inr (Num 0))
                        else Inr (Num 0)))
             else Inr (Num 0)))"

definition isBuy :: "Transaction \<Rightarrow> bool" where
  \<comment> \<open>the filter of step 2\<close>
  "isBuy tx =
     ((case tokens_received tx of None \<Rightarrow> False | Some rcvd \<Rightarrow> 0 < length rcvd) \<and>
      js_gt (volume_usd tx) (Num 0))"

text \<open>The loop of step 3, on its three accumulators.\<close>

fun buyLoop :: "Transaction list \<Rightarrow> number \<times> number \<times> nat \<Rightarrow> error + number \<times> number \<times> nat" where
  "buyLoop [] acc = Inr acc"
| "buyLoop (tx # txs) (totalUsdSpent, totalEthEquivalent, pricesFound) =
     (let usdSpent = volume_usd tx;
          totalUsdSpent' = js_add totalUsdSpent usdSpent
      in case getEthPriceFromTransaction tx of
           Inl e \<Rightarrow> Inl e
         | Inr ethPrice \<Rightarrow>
             if js_gt ethPrice (Num 0)
             then buyLoop txs (totalUsdSpent',
                               js_add totalEthEquivalent (js_div usdSpent ethPrice),
                               Suc pricesFound)
             else buyLoop txs (totalUsdSpent', totalEthEquivalent, pricesFound))"

fun findCurrentEthPrice :: "Holding list \<Rightarrow> number" where
  "findCurrentEthPrice [] = Num 0"
| "findCurrentEthPrice (b # rest) =
     (if truthy (token_address b) \<and>
         map_option toLowerCase (token_address b) = Some (toLowerCase ETH_ADDRESS) \<and>
         js_gt (price_usd b) (Num 0)
      then price_usd b
      else findCurrentEthPrice rest)"

definition getCurrentEthPriceFromNansen :: "error + BalanceResponse \<Rightarrow> number" where
  \<comment> \<open>the argument is the outcome of the balance call; the function catches its rejection\<close>
  "getCurrentEthPriceFromNansen balanceOutcome =
     (case balanceOutcome of
        Inl e \<Rightarrow> Num 0
      | Inr None \<Rightarrow> Num 0
      | Inr (Some balances) \<Rightarrow> findCurrentEthPrice balances)"

definition setAdd :: "string list \<Rightarrow> string \<Rightarrow> string list" where
  \<comment> \<open>\<open>Set.add\<close>, the set kept in insertion order as \<open>Array.from\<close> reads it\<close>
  "setAdd s a = (if a \<in> set s then s else s @ [a])"

fun extractFromTransfers :: "string list \<Rightarrow> TokenTransfer list \<Rightarrow> string list" where
  "extractFromTransfers tokenSet [] = tokenSet"
| "extractFromTransfers tokenSet (token # rest) =
     (case tt_token_address token of
        None \<Rightarrow> extractFromTransfers tokenSet rest
      | Some a \<Rightarrow>
          if a \<noteq> [] \<and> a \<noteq> ETH_ADDRESS \<and>
             toLowerCase a \<noteq> ''0x0000000000000000000000000000000000000000''
          then extractFromTransfers (setAdd tokenSet (toLowerCase a)) rest
          else extractFromTransfers tokenSet rest)"

fun extractLoop :: "string list \<Rightarrow> Transaction list \<Rightarrow> error + string list" where
  "extractLoop tokenSet [] = Inr tokenSet"
| "extractLoop tokenSet (tx # txs) =
     (case tokens_received tx of
        None \<Rightarrow> Inl TypeError
      | Some rcvd \<Rightarrow> extractLoop (extractFromTransfers tokenSet rcvd) txs)"

definition extractUniqueTokens :: "Transaction list \<Rightarrow> error + string list" where
  "extractUniqueTokens transactions = extractLoop [] transactions"

fun relevantBalances :: "string list \<Rightarrow> Holding list \<Rightarrow> error + Holding list" where
  \<comment> \<open>the filter of \<open>calculateCurrentPortfolioValue\<close>; a missing address throws\<close>
  "relevantBalances purchased [] = Inr []"
| "relevantBalances purchased (b # rest) =
     (case token_address b of
        None \<Rightarrow> Inl TypeError
      | Some a \<Rightarrow>
         (case relevantBalances purchased rest of
            Inl e \<Rightarrow> Inl e
          | Inr bs \<Rightarrow> Inr (if toLowerCase a \<in> set purchased then b # bs else bs)))"

fun sumValueUsd :: "number \<Rightarrow> Holding list \<Rightarrow> number" where
  \<comment> \<open>\<open>for (const h of hs) totalValue += h.value_usd\<close>\<close>
  "sumValueUsd totalValue [] = totalValue"
| "sumValueUsd totalValue (h # hs) = sumValueUsd (js_add totalValue (value_usd h)) hs"

definition calculateCurrentPortfolioValue :: "error + BalanceResponse \<Rightarrow> string list \<Rightarrow> number" where
  "calculateCurrentPortfolioValue balanceOutcome tokenAddresses =
     (case balanceOutcome of
        Inl e \<Rightarrow> Num 0
      | Inr None \<Rightarrow> Num 0
      | Inr (Some balances) \<Rightarrow>
          if length balances = 0 then Num 0
          else (case relevantBalances (map toLowerCase tokenAddresses) balances of
                  Inl e \<Rightarrow> Num 0
                | Inr relevant \<Rightarrow> sumValueUsd (Num 0) relevant))"

text \<open>
  The body of the \<open>try\<close> block. Its three arguments are the outcomes of the three upstream
  calls in the order the code makes them: the transaction history, the balance read for the
  current ETH price and the balance read for the portfolio value.
\<close>

definition ethBenchmarkTry ::
  "error + TransactionsResponse \<Rightarrow> error + BalanceResponse \<Rightarrow> error + BalanceResponse
     \<Rightarrow> error + EthBenchmarkData AnalysisResult" where
  "ethBenchmarkTry transactionsOutcome ethBalanceOutcome portfolioBalanceOutcome =
     (case transactionsOutcome of
        Inl e \<Rightarrow> Inl e
      | Inr None \<Rightarrow> Inr ethBenchmarkFallback
      | Inr (Some transactions) \<Rightarrow>
          if length transactions = 0 then Inr ethBenchmarkFallback
          else
            let buyTransactions = filter isBuy transactions in
            if length buyTransactions = 0 then Inr ethBenchmarkFallback
            else
              (case buyLoop buyTransactions (Num 0, Num 0, 0) of
                 Inl e \<Rightarrow> Inl e
               | Inr (totalUsdSpent, totalEthEquivalent, pricesFound) \<Rightarrow>
                   if js_eq totalEthEquivalent (Num 0) \<or>
                      real pricesFound < real (length buyTransactions) * 0.5
                   then Inr ethBenchmarkFallback
                   else
                     (case extractUniqueTokens buyTransactions of
                        Inl e \<Rightarrow> Inl e
                      | Inr purchasedTokens \<Rightarrow>
                          let currentEthPrice = getCurrentEthPriceFromNansen ethBalanceOutcome in
                          if js_eq currentEthPrice (Num 0) then Inr ethBenchmarkFallback
                          else
                            let ethEquivalentValue = js_mul totalEthEquivalent currentEthPrice;
                                portfolioValue =
                                  calculateCurrentPortfolioValue portfolioBalanceOutcome purchasedTokens;
                                performancePercent =
                                  js_mul (js_div (js_sub portfolioValue ethEquivalentValue)
                                                 ethEquivalentValue) (Num 100)
                            in Inr \<lparr>type = ''eth_benchmark'', success = True,
                                    data = Some \<lparr>portfolioValue = portfolioValue,
                                                 ethEquivalentValue = ethEquivalentValue,
                                                 performancePercent = performancePercent,
                                                 status = (if js_ge performancePercent (Num 0)
                                                           then ''OUTPERFORMED''
                                                           else ''UNDERPERFORMED'')\<rparr>,
                                    fallback = None\<rparr>)))"

definition analyzeEthBenchmark ::
  "error + TransactionsResponse \<Rightarrow> error + BalanceResponse \<Rightarrow> error + BalanceResponse
     \<Rightarrow> EthBenchmarkData AnalysisResult" where
  \<comment> \<open>\<open>try { ... } catch (error) { return fallback }\<close>\<close>
  "analyzeEthBenchmark transactionsOutcome ethBalanceOutcome portfolioBalanceOutcome =
     (case ethBenchmarkTry transactionsOutcome ethBalanceOutcome portfolioBalanceOutcome of
        Inl e \<Rightarrow> ethBenchmarkFallback
      | Inr r \<Rightarrow> r)"

section \<open>Builtins used by the analyzers and the formatter\<close>

subsection \<open>parseFloat\<close>

text \<open>
  \<open>parseFloat\<close> skips leading white space, reads the longest prefix that is a decimal
  literal (sign, digits, fraction, exponent, or \<open>Infinity\<close>) and ignores what follows;
  without such a prefix the result is \<open>NaN\<close>.
\<close>

definition isWhiteSpace :: "char \<Rightarrow> bool" where
  "isWhiteSpace c = (c \<in> set [CHR '' '', CHR 0x09, CHR 0x0A, CHR 0x0B, CHR 0x0C, CHR 0x0D])"

definition digitValue :: "char \<Rightarrow> nat option" where
  "digitValue c = map_of (zip ''0123456789'' [0, 1, 2, 3, 4, 5, 6, 7, 8, 9]) c"

definition isDigit :: "char \<Rightarrow> bool" where
  "isDigit c = (digitValue c \<noteq> None)"

definition digitsValue :: "string \<Rightarrow> nat" where
  "digitsValue ds = foldl (\<lambda>a c. 10 * a + (case digitValue c of None \<Rightarrow> 0 | Some d \<Rightarrow> d)) 0 ds"

definition startsWith :: "string \<Rightarrow> char \<Rightarrow> bool" where
  "startsWith s c = (case s of [] \<Rightarrow> False | d # _ \<Rightarrow> d = c)"

definition parseExponent :: "string \<Rightarrow> int" where
  \<comment> \<open>the exponent part at the head of the string, 0 when there is none\<close>
  "parseExponent s =
     (if startsWith s CHR ''e'' \<or> startsWith s CHR ''E'' then
        (let r = tl s;
             neg = startsWith r CHR ''-'';
             r' = (if startsWith r CHR ''-'' \<or> startsWith r CHR ''+'' then tl r else r);
             ds = takeWhile isDigit r'
         in if ds = [] then 0
            else if neg then - int (digitsValue ds) else int (digitsValue ds))
      else 0)"

definition scale10 :: "real \<Rightarrow> int \<Rightarrow> real" where
  "scale10 m ex = (if 0 \<le> ex then m * 10 ^ nat ex else m / 10 ^ nat (- ex))"

definition parseFloat :: "string \<Rightarrow> number" where
  "parseFloat s =
     (let s1 = dropWhile isWhiteSpace s;
          neg = startsWith s1 CHR ''-'';
          s2 = (if startsWith s1 CHR ''-'' \<or> startsWith s1 CHR ''+'' then tl s1 else s1)
      in if prefix ''Infinity'' s2 then (if neg then NegInfinity else PosInfinity)
         else
           let ip = takeWhile isDigit s2;
               r1 = dropWhile isDigit s2;
               fp = (if startsWith r1 CHR ''.'' then takeWhile isDigit (tl r1) else []);
               r2 = (if startsWith r1 CHR ''.'' then dropWhile isDigit (tl r1) else r1)
           in if ip = [] \<and> fp = [] then NaN
              else
                let mant = real (digitsValue (ip @ fp)) / 10 ^ length fp;
                    v = scale10 mant (parseExponent r2)
                in Num (if neg then - v else v))"

subsection \<open>Number.prototype.toFixed\<close>

definition digitChar :: "nat \<Rightarrow> char" where
  "digitChar d = ''0123456789'' ! (d mod 10)"

function showNat :: "nat \<Rightarrow> string" where
  "showNat n = (if n < 10 then [digitChar n] else showNat (n div 10) @ [digitChar (n mod 10)])"
  by pat_completeness auto
termination
  by (relation "measure id") auto

text \<open>
  \<open>x.toFixed(f)\<close>: the sign, then the integer \<open>n\<close> nearest to \<open>|x| * 10^f\<close> (the larger one
  on a tie) written with \<open>f\<close> fraction digits. From \<open>10^21\<close> on the method answers in
  exponent notation, which depends on the bits of the double: that case is \<open>None\<close> here.
\<close>

definition toFixed :: "number \<Rightarrow> nat \<Rightarrow> string option" where
  "toFixed x f =
     (case x of
        NaN \<Rightarrow> Some ''NaN''
      | PosInfinity \<Rightarrow> Some ''Infinity''
      | NegInfinity \<Rightarrow> Some ''-Infinity''
      | Num r \<Rightarrow>
          if 10 ^ 21 \<le> \<bar>r\<bar> then None
          else
            let sgn = (if r < 0 then ''-'' else []);
                n = nat \<lfloor>\<bar>r\<bar> * 10 ^ f + 1 / 2\<rfloor>;
                m = showNat n;
                m' = (if length m \<le> f then replicate (f + 1 - length m) CHR ''0'' @ m else m);
                k = length m'
            in Some (sgn @ (if f = 0 then m' else take (k - f) m' @ ''.'' @ drop (k - f) m')))"

section \<open>Formatter (part 005)\<close>

definition formatPercent :: "number \<Rightarrow> nat \<Rightarrow> string option" where
  \<comment> \<open>\<open>decimals\<close> defaults to 2 at the call sites\<close>
  "formatPercent v decimals =
     (let sgn = (if js_ge v (Num 0) then ''+'' else [])
      in map_option (\<lambda>d. sgn @ d @ ''%'') (toFixed v decimals))"

section \<open>Price cache\<close>

text \<open>The values of the \<open>Map\<close> of ATH prices in part 006: \<open>{athPrice, athDate}\<close>.\<close>

record AthData =
  athPrice :: number
  athDate :: "int option"  \<comment> \<open>a \<open>Date\<close> as milliseconds since the epoch, or \<open>null\<close>\<close>

text \<open>
  Modelled from the spec: the module \<open>utils/athCache.ts\<close>, whose object \<open>athCache\<close> part
  006 imports, is not among the sources; only these calls of its methods \<open>get\<close>, \<open>set\<close> and
  \<open>getStats\<close> are. Its state and its three methods follow the data model and section 4.1
  of the specification. The clock that the methods read is the argument \<open>now\<close>, in
  milliseconds.
\<close>

record CacheEntry =
  athRecord :: AthData
  cachedAt :: int

record AthCache =
  entries :: "(string \<times> CacheEntry) list"  \<comment> \<open>keyed by the lower-cased address\<close>
  hitCount :: nat
  missCount :: nat

definition CACHE_TTL_MS :: int where
  \<comment> \<open>Modelled from the spec: the life of an entry of the missing module, 24 hours\<close>
  "CACHE_TTL_MS = 24 * 60 * 60 * 1000"

definition athCache_get :: "AthCache \<Rightarrow> int \<Rightarrow> string \<Rightarrow> AthData option \<times> AthCache" where
  \<comment> \<open>Modelled from the spec: \<open>get\<close> of the missing module. It looks the address up without
      regard to case and answers absent if there is no entry or the entry is older than
      24 hours; a stale entry is a miss and stays where it is.\<close>
  "athCache_get c now tokenAddress =
     (case map_of (entries c) (toLowerCase tokenAddress) of
        None \<Rightarrow> (None, c\<lparr>missCount := missCount c + 1\<rparr>)
      | Some e \<Rightarrow>
          if now - cachedAt e > CACHE_TTL_MS then (None, c\<lparr>missCount := missCount c + 1\<rparr>)
          else (Some (athRecord e), c\<lparr>hitCount := hitCount c + 1\<rparr>))"

definition athCache_set :: "AthCache \<Rightarrow> int \<Rightarrow> string \<Rightarrow> number \<Rightarrow> int option \<Rightarrow> AthCache" where
  \<comment> \<open>Modelled from the spec: \<open>set\<close> of the missing module. It inserts or overwrites the
      entry only when the price is positive and stores the current time with it.\<close>
  "athCache_set c now tokenAddress price date =
     (if js_gt price (Num 0)
      then c\<lparr>entries := AList.update (toLowerCase tokenAddress)
                           \<lparr>athRecord = \<lparr>athPrice = price, athDate = date\<rparr>, cachedAt = now\<rparr>
                           (entries c)\<rparr>
      else c)"

definition athCache_getStats :: "AthCache \<Rightarrow> nat \<times> nat \<times> nat" where
  \<comment> \<open>Modelled from the spec: \<open>stats\<close> of the missing module, the two counters and the size\<close>
  "athCache_getStats c = (hitCount c, missCount c, length (entries c))"

definition emptyCache :: AthCache where
  \<comment> \<open>Modelled from the spec: the cache of a process that has just started\<close>
  "emptyCache = \<lparr>entries = [], hitCount = 0, missCount = 0\<rparr>"

section \<open>Portfolio at all-time high\<close>

definition PORTFOLIO_ATH_FALLBACK :: string where
  "PORTFOLIO_ATH_FALLBACK = ''No meaningful history yet for young/empty wallets''"

record PortfolioAthData =
  currentValue :: number
  athValue :: number
  potentialGainPercent :: number

definition portfolioAthFallback :: "PortfolioAthData AnalysisResult" where
  "portfolioAthFallback =
     \<lparr>type = ''portfolio_ath'', success = False, data = None,
      fallback = Some (Some PORTFOLIO_ATH_FALLBACK)\<rparr>"

definition isTokenHolding :: "Holding \<Rightarrow> bool" where
  \<comment> \<open>the filter that drops native tokens and holdings without value\<close>
  "isTokenHolding holding =
     (truthy (token_address holding) \<and>
      map_option toLowerCase (token_address holding)
        \<noteq> Some ''0xeeeeeeeeeeeeeeeeeeeeeeeeeeeeeeeeeeeeeeee'' \<and>
      map_option toLowerCase (token_address holding)
        \<noteq> Some ''0x000000000000000000000000000000000000800a'' \<and>
      truthy (chain holding) \<and>
      js_gt (value_usd holding) (Num 0))"

text \<open>A \<open>Map\<close> from addresses to ATH data is read through \<open>get\<close> only: a partial function.\<close>

type_synonym AthPrices = "string \<rightharpoonup> AthData"

type_synonym TokenRequest = "string option \<times> string"  \<comment> \<open>\<open>{chain, address}\<close>\<close>

text \<open>
  \<open>coinGeckoService.batchGetATHPrices\<close> is an upstream call: the analyzers take it as a
  function from the requested tokens to its outcome, the entries of the \<open>Map\<close> it resolves to.
\<close>

type_synonym AthFetch = "TokenRequest list \<Rightarrow> error + (string \<times> AthData) list"

fun athLoop :: "AthPrices \<Rightarrow> Holding list \<Rightarrow> number \<times> nat \<Rightarrow> error + number \<times> nat" where
  \<comment> \<open>step 4, on \<open>athValue\<close> and \<open>successfulTokens\<close>\<close>
  "athLoop athPrices [] acc = Inr acc"
| "athLoop athPrices (holding # rest) (athValue', successfulTokens) =
     (case token_address holding of
        None \<Rightarrow> Inl TypeError
      | Some a \<Rightarrow>
         (case athPrices (toLowerCase a) of
            None \<Rightarrow> athLoop athPrices rest (js_add athValue' (value_usd holding), successfulTokens)
          | Some athData \<Rightarrow>
              if js_gt (athPrice athData) (Num 0) then
                (let tokenAmount = parseFloat (balance holding);
                     athTokenValue = js_mul tokenAmount (athPrice athData)
                 in athLoop athPrices rest (js_add athValue' athTokenValue, Suc successfulTokens))
              else athLoop athPrices rest (js_add athValue' (value_usd holding), successfulTokens)))"

definition potentialGainStep :: "number \<Rightarrow> number \<Rightarrow> nat \<Rightarrow> PortfolioAthData AnalysisResult" where
  \<comment> \<open>from the test of \<open>successfulTokens\<close> to the returned object; common to both versions\<close>
  "potentialGainStep currentValue' athValue' successfulTokens =
     (if successfulTokens = 0 then portfolioAthFallback
      else
        let potentialGainPercent' =
              js_mul (js_div (js_sub athValue' currentValue') currentValue') (Num 100)
        in \<lparr>type = ''portfolio_ath'', success = True,
            data = Some \<lparr>currentValue = currentValue', athValue = athValue',
                         potentialGainPercent = potentialGainPercent'\<rparr>,
            fallback = None\<rparr>)"

fun requestsOf :: "Holding list \<Rightarrow> error + TokenRequest list" where
  \<comment> \<open>\<open>tokenHoldings.map(h => ({chain: h.chain, address: h.token_address}))\<close>\<close>
  "requestsOf [] = Inr []"
| "requestsOf (holding # rest) =
     (case token_address holding of
        None \<Rightarrow> Inl TypeError
      | Some a \<Rightarrow> (case requestsOf rest of Inl e \<Rightarrow> Inl e | Inr rs \<Rightarrow> Inr ((chain holding, a) # rs)))"

text \<open>The version without the cache (part 002).\<close>

definition portfolioAthTry :: "error + BalanceResponse \<Rightarrow> AthFetch \<Rightarrow> error + PortfolioAthData AnalysisResult" where
  "portfolioAthTry balanceOutcome fetch =
     (case balanceOutcome of
        Inl e \<Rightarrow> Inl e
      | Inr None \<Rightarrow> Inr portfolioAthFallback
      | Inr (Some holdings) \<Rightarrow>
          if length holdings = 0 then Inr portfolioAthFallback
          else
            let tokenHoldings = filter isTokenHolding holdings in
            if length tokenHoldings = 0 then Inr portfolioAthFallback
            else
              let currentValue' = sumValueUsd (Num 0) tokenHoldings in
              (case requestsOf tokenHoldings of
                 Inl e \<Rightarrow> Inl e
               | Inr tokensToFetch \<Rightarrow>
                  (case fetch tokensToFetch of
                     Inl e \<Rightarrow> Inl e
                   | Inr fetched \<Rightarrow>
                      (case athLoop (map_of fetched) tokenHoldings (Num 0, 0) of
                         Inl e \<Rightarrow> Inl e
                       | Inr (athValue', successfulTokens) \<Rightarrow>
                           Inr (potentialGainStep currentValue' athValue' successfulTokens)))))"

definition analyzePortfolioATH :: "error + BalanceResponse \<Rightarrow> AthFetch \<Rightarrow> PortfolioAthData AnalysisResult" where
  "analyzePortfolioATH balanceOutcome fetch =
     (case portfolioAthTry balanceOutcome fetch of
        Inl e \<Rightarrow> portfolioAthFallback
      | Inr r \<Rightarrow> r)"

text \<open>
  The version with the cache (part 006). The cache is the module's singleton: it is passed
  in and returned. What the body did to it before an exception stays done.
\<close>

fun cacheLoop ::
  "int \<Rightarrow> Holding list \<Rightarrow> AthPrices \<times> TokenRequest list \<times> nat \<times> AthCache
     \<Rightarrow> (error + AthPrices \<times> TokenRequest list \<times> nat) \<times> AthCache" where
  \<comment> \<open>step 3, first loop: \<open>athPrices\<close>, \<open>tokensToFetch\<close>, \<open>cacheHits\<close> and the cache\<close>
  "cacheLoop now [] (athPrices, tokensToFetch, cacheHits, cache) =
     (Inr (athPrices, tokensToFetch, cacheHits), cache)"
| "cacheLoop now (holding # rest) (athPrices, tokensToFetch, cacheHits, cache) =
     (case token_address holding of
        None \<Rightarrow> (Inl TypeError, cache)
      | Some a \<Rightarrow>
         (case athCache_get cache now a of
            (Some cached, cache') \<Rightarrow>
               cacheLoop now rest (athPrices(toLowerCase a \<mapsto> cached), tokensToFetch,
                                   Suc cacheHits, cache')
          | (None, cache') \<Rightarrow>
               cacheLoop now rest (athPrices, tokensToFetch @ [(chain holding, a)],
                                   cacheHits, cache')))"

fun storeLoop :: "int \<Rightarrow> (string \<times> AthData) list \<Rightarrow> AthPrices \<times> AthCache \<Rightarrow> AthPrices \<times> AthCache" where
  \<comment> \<open>step 3, second loop, over the entries of the fetched \<open>Map\<close>\<close>
  "storeLoop now [] acc = acc"
| "storeLoop now ((address, athData) # rest) (athPrices, cache) =
     storeLoop now rest
       (athPrices(address \<mapsto> athData),
        (if js_gt (athPrice athData) (Num 0) \<and> athDate athData \<noteq> None
         then athCache_set cache now address (athPrice athData) (athDate athData)
         else cache))"

definition portfolioAthTry_prd ::
  "error + BalanceResponse \<Rightarrow> AthFetch \<Rightarrow> int \<Rightarrow> AthCache
     \<Rightarrow> (error + PortfolioAthData AnalysisResult) \<times> AthCache" where
  "portfolioAthTry_prd balanceOutcome fetch now cache =
     (case balanceOutcome of
        Inl e \<Rightarrow> (Inl e, cache)
      | Inr None \<Rightarrow> (Inr portfolioAthFallback, cache)
      | Inr (Some holdings) \<Rightarrow>
          if length holdings = 0 then (Inr portfolioAthFallback, cache)
          else
            let tokenHoldings = filter isTokenHolding holdings in
            if length tokenHoldings = 0 then (Inr portfolioAthFallback, cache)
            else
              let currentValue' = sumValueUsd (Num 0) tokenHoldings in
              (case cacheLoop now tokenHoldings (Map.empty, [], 0, cache) of
                 (Inl e, cache1) \<Rightarrow> (Inl e, cache1)
               | (Inr (athPrices0, tokensToFetch, cacheHits), cache1) \<Rightarrow>
                  (case (if 0 < length tokensToFetch
                         then map_sum id (\<lambda>fetched. storeLoop now fetched (athPrices0, cache1))
                                (fetch tokensToFetch)
                         else Inr (athPrices0, cache1)) of
                     Inl e \<Rightarrow> (Inl e, cache1)
                   | Inr (athPrices, cache2) \<Rightarrow>
                      (case athLoop athPrices tokenHoldings (Num 0, 0) of
                         Inl e \<Rightarrow> (Inl e, cache2)
                       | Inr (athValue', successfulTokens) \<Rightarrow>
                           (Inr (potentialGainStep currentValue' athValue' successfulTokens),
                            cache2)))))"

definition analyzePortfolioATH_prd ::
  "error + BalanceResponse \<Rightarrow> AthFetch \<Rightarrow> int \<Rightarrow> AthCache
     \<Rightarrow> PortfolioAthData AnalysisResult \<times> AthCache" where
  "analyzePortfolioATH_prd balanceOutcome fetch now cache =
     (case portfolioAthTry_prd balanceOutcome fetch now cache of
        (Inl e, cache') \<Rightarrow> (portfolioAthFallback, cache')
      | (Inr r, cache') \<Rightarrow> (r, cache'))"

section \<open>Labels\<close>

record Label =
  lbl_label :: "string option"     \<comment> \<open>the property \<open>label\<close>\<close>
  lbl_category :: "string option"  \<comment> \<open>the property \<open>category\<close>\<close>

text \<open>The labels endpoint answers with a bare array; \<open>None\<close> is an answer that is not an array.\<close>

type_synonym LabelsResponse = "Label list option"

record LabelsData =
  label :: string

definition labelsFallback :: "LabelsData AnalysisResult" where
  "labelsFallback = \<lparr>type = ''labels'', success = False, data = None, fallback = Some None\<rparr>"

definition labelsSuccess :: "string \<Rightarrow> LabelsData AnalysisResult" where
  "labelsSuccess l =
     \<lparr>type = ''labels'', success = True, data = Some \<lparr>label = l\<rparr>, fallback = None\<rparr>"

subsection \<open>The first version (part 002): substring match against its own list\<close>

definition LABEL_PRIORITY_local :: "string list" where
  \<comment> \<open>the constant \<open>LABEL_PRIORITY\<close> that part 002 declares for itself\<close>
  "LABEL_PRIORITY_local =
     [''Whale'', ''Smart Money'', ''Professional Trader'', ''Quant Trader'', ''MEV Bot'', ''Bot'',
      ''Active Trader'', ''High Activity'', ''Dex Trader'', ''NFT Collector'',
      ''ENS Domains Collector'', ''Staker'', ''DeFi User'', ''OpenSea User'']"

fun findIndex :: "('a \<Rightarrow> bool) \<Rightarrow> 'a list \<Rightarrow> nat option" where
  \<comment> \<open>\<open>Array.prototype.findIndex\<close>; \<open>None\<close> is \<open>-1\<close>\<close>
  "findIndex P [] = None"
| "findIndex P (x # xs) = (if P x then Some 0 else map_option Suc (findIndex P xs))"

fun labelLoop :: "string option list \<Rightarrow> string option \<times> nat \<Rightarrow> error + string option \<times> nat" where
  \<comment> \<open>on \<open>highestPriorityLabel\<close> and \<open>highestPriorityIndex\<close>; \<open>toLowerCase\<close> of a missing label throws\<close>
  "labelLoop [] acc = Inr acc"
| "labelLoop (l # labelNames) (highestPriorityLabel, highestPriorityIndex) =
     (case l of
        None \<Rightarrow> Inl TypeError
      | Some lbl \<Rightarrow>
         (case findIndex (\<lambda>priorityLabel. js_includes (toLowerCase lbl) (toLowerCase priorityLabel))
                 LABEL_PRIORITY_local of
            None \<Rightarrow> labelLoop labelNames (highestPriorityLabel, highestPriorityIndex)
          | Some priorityIndex \<Rightarrow>
              if priorityIndex < highestPriorityIndex
              then labelLoop labelNames (Some (LABEL_PRIORITY_local ! priorityIndex), priorityIndex)
              else labelLoop labelNames (highestPriorityLabel, highestPriorityIndex)))"

definition labelsTry :: "error + LabelsResponse \<Rightarrow> error + LabelsData AnalysisResult" where
  "labelsTry labelsOutcome =
     (case labelsOutcome of
        Inl e \<Rightarrow> Inl e
      | Inr None \<Rightarrow> Inr labelsFallback
      | Inr (Some response) \<Rightarrow>
          if length response = 0 then Inr labelsFallback
          else
            (case labelLoop (map lbl_label response) (None, length LABEL_PRIORITY_local) of
               Inl e \<Rightarrow> Inl e
             | Inr (highestPriorityLabel, highestPriorityIndex) \<Rightarrow>
                 (case highestPriorityLabel of
                    None \<Rightarrow> Inr labelsFallback
                  | Some l \<Rightarrow> if l = [] then Inr labelsFallback else Inr (labelsSuccess l))))"

definition analyzeLabels :: "error + LabelsResponse \<Rightarrow> LabelsData AnalysisResult" where
  "analyzeLabels labelsOutcome =
     (case labelsTry labelsOutcome of Inl e \<Rightarrow> labelsFallback | Inr r \<Rightarrow> r)"

subsection \<open>The second version (prd-implementation): exact match against constants/labels.ts\<close>

definition LABEL_PRIORITY :: "string list" where
  "LABEL_PRIORITY =
     [''Top 100 Leaderboard Trader'', ''Multiple Memecoin Whales'', ''Memecoin Whale'',
      ''Smart Fund'', ''Token Millionaire'',
      ''ETH Millionaire'', ''New Token Specialist'', ''Memecoin Specialist'',
      ''Gaming Specialist'', ''AI Specialist'', ''DEX Specialist'', ''RWA Specialist'',
      ''Smart NFT Trader'', ''Smart NFT Collector'', ''Smart NFT Minter'',
      ''Smart NFT Early Adopter'',
      ''Top Token Deployer'', ''Token Deployer'', ''Emerging Smart Trader'',
      ''Arbitrum Specialist'', ''Base Specialist'', ''Blast Specialist'',
      ''Optimism Specialist'', ''Polygon Specialist'', ''Linea Specialist'',
      ''Scroll Specialist'', ''Fantom Specialist'', ''Sei Specialist'', ''ZKsync Specialist'',
      ''BSC Specialist'', ''Avalanche Specialist'',
      ''Staker'', ''OpenSea User'', ''Blur Trader'', ''Exit Liquidity'']"

definition SMART_MONEY_PRIORITY :: "string list" where
  "SMART_MONEY_PRIORITY =
     [''Smart Trader (2Y)'', ''180D Smart Trader'', ''90D Smart Trader'', ''30D Smart Trader'']"

definition SMART_MONEY_KEYWORDS :: "string list" where
  "SMART_MONEY_KEYWORDS =
     [''Smart Fund'', ''Smart NFT Trader'', ''Smart NFT Collector'', ''Smart NFT Minter'',
      ''Smart NFT Early Adopter'']"

fun firstIncluded :: "string list \<Rightarrow> string option list \<Rightarrow> string option" where
  \<comment> \<open>\<open>for (const p of priority) if (strings.includes(p)) return ...\<close>; \<open>None\<close>: the loop ended\<close>
  "firstIncluded [] strings = None"
| "firstIncluded (priorityLabel # rest) strings =
     (if Some priorityLabel \<in> set strings then Some priorityLabel
      else firstIncluded rest strings)"

definition labelsTry_prd :: "error + LabelsResponse \<Rightarrow> error + LabelsData AnalysisResult" where
  "labelsTry_prd labelsOutcome =
     (case labelsOutcome of
        Inl e \<Rightarrow> Inl e
      | Inr None \<Rightarrow> Inr labelsFallback
      | Inr (Some response) \<Rightarrow>
          if length response = 0 then Inr labelsFallback
          else
            (case firstIncluded LABEL_PRIORITY (map lbl_label response) of
               Some priorityLabel \<Rightarrow> Inr (labelsSuccess priorityLabel)
             | None \<Rightarrow> Inr labelsFallback))"

definition analyzeLabels_prd :: "error + LabelsResponse \<Rightarrow> LabelsData AnalysisResult" where
  "analyzeLabels_prd labelsOutcome =
     (case labelsTry_prd labelsOutcome of Inl e \<Rightarrow> labelsFallback | Inr r \<Rightarrow> r)"

section \<open>Smart money\<close>

record SmartMoneyData =
  isSmartMoney :: bool
  labels :: "string option list"  \<comment> \<open>an element \<open>None\<close> is a label that the payload lacked\<close>

definition smartMoneyFallback :: "SmartMoneyData AnalysisResult" where
  "smartMoneyFallback =
     \<lparr>type = ''smart_money'', success = False, data = None, fallback = Some None\<rparr>"

definition smartMoneySuccess :: "string option list \<Rightarrow> SmartMoneyData AnalysisResult" where
  "smartMoneySuccess ls =
     \<lparr>type = ''smart_money'', success = True,
      data = Some \<lparr>isSmartMoney = True, labels = ls\<rparr>, fallback = None\<rparr>"

definition SMART_MONEY_LABELS :: "string list" where
  "SMART_MONEY_LABELS =
     [''Smart Money'', ''Professional Trader'', ''Quant Trader'', ''Institutional Investor'',
      ''Fund'', ''Whale'']"

fun smartMoneyLoop :: "string option list \<Rightarrow> string option list \<Rightarrow> error + string option list" where
  \<comment> \<open>part 003, on \<open>smartMoneyLabelsFound\<close>\<close>
  "smartMoneyLoop [] smartMoneyLabelsFound = Inr smartMoneyLabelsFound"
| "smartMoneyLoop (l # labelNames) smartMoneyLabelsFound =
     (case l of
        None \<Rightarrow> Inl TypeError
      | Some lbl \<Rightarrow>
          if list_ex (\<lambda>smartLabel. toLowerCase lbl = toLowerCase smartLabel) SMART_MONEY_LABELS
          then smartMoneyLoop labelNames (smartMoneyLabelsFound @ [Some lbl])
          else smartMoneyLoop labelNames smartMoneyLabelsFound)"

definition smartMoneyTry :: "error + LabelsResponse \<Rightarrow> error + SmartMoneyData AnalysisResult" where
  "smartMoneyTry labelsOutcome =
     (case labelsOutcome of
        Inl e \<Rightarrow> Inl e
      | Inr None \<Rightarrow> Inr smartMoneyFallback
      | Inr (Some response) \<Rightarrow>
          if length response = 0 then Inr smartMoneyFallback
          else
            (case smartMoneyLoop (map lbl_label response) [] of
               Inl e \<Rightarrow> Inl e
             | Inr smartMoneyLabelsFound \<Rightarrow>
                 if length smartMoneyLabelsFound = 0 then Inr smartMoneyFallback
                 else Inr (smartMoneySuccess smartMoneyLabelsFound)))"

definition analyzeSmartMoney :: "error + LabelsResponse \<Rightarrow> SmartMoneyData AnalysisResult" where
  "analyzeSmartMoney labelsOutcome =
     (case smartMoneyTry labelsOutcome of Inl e \<Rightarrow> smartMoneyFallback | Inr r \<Rightarrow> r)"

text \<open>The version of the prd-implementation: by category first, then by the two keyword lists.\<close>

definition smartMoneyTry_prd :: "error + LabelsResponse \<Rightarrow> error + SmartMoneyData AnalysisResult" where
  "smartMoneyTry_prd labelsOutcome =
     (case labelsOutcome of
        Inl e \<Rightarrow> Inl e
      | Inr None \<Rightarrow> Inr smartMoneyFallback
      | Inr (Some response) \<Rightarrow>
          if length response = 0 then Inr smartMoneyFallback
          else
            let smartMoneyLabels = filter (\<lambda>item. lbl_category item = Some ''smart_money'') response in
            if 0 < length smartMoneyLabels then
              (case firstIncluded SMART_MONEY_PRIORITY (map lbl_label smartMoneyLabels) of
                 Some priorityLabel \<Rightarrow> Inr (smartMoneySuccess [Some priorityLabel])
               | None \<Rightarrow> Inr (smartMoneySuccess (map lbl_label smartMoneyLabels)))
            else
              let allLabelStrings = map lbl_label response in
              (case firstIncluded SMART_MONEY_PRIORITY allLabelStrings of
                 Some priorityLabel \<Rightarrow> Inr (smartMoneySuccess [Some priorityLabel])
               | None \<Rightarrow>
                  (case firstIncluded SMART_MONEY_KEYWORDS allLabelStrings of
                     Some keyword \<Rightarrow> Inr (smartMoneySuccess [Some keyword])
                   | None \<Rightarrow> Inr smartMoneyFallback)))"

definition analyzeSmartMoney_prd :: "error + LabelsResponse \<Rightarrow> SmartMoneyData AnalysisResult" where
  "analyzeSmartMoney_prd labelsOutcome =
     (case smartMoneyTry_prd labelsOutcome of Inl e \<Rightarrow> smartMoneyFallback | Inr r \<Rightarrow> r)"

section \<open>Profit and loss (part 003)\<close>

record PnlSummary =
  realized_pnl_usd :: "number option"  \<comment> \<open>\<open>None\<close>: the property is \<open>undefined\<close>\<close>
  realized_pnl_percent :: number

record PnlData =
  pnl_percent :: number  \<comment> \<open>the property \<open>realized_pnl_percent\<close> of the result\<close>
  pnl_usd :: number      \<comment> \<open>the property \<open>realized_pnl_usd\<close> of the result\<close>
  pnl_status :: string   \<comment> \<open>the property \<open>status\<close>\<close>
  timeframe :: string

definition PNL_FALLBACK :: string where
  \<comment> \<open>the dash of the message is U+2014, here in UTF-8\<close>
  "PNL_FALLBACK = ''Only mist'' @ [CHR 0xE2, CHR 0x80, CHR 0x94] @ ''too little history to read.''"

definition pnlFallback :: "PnlData AnalysisResult" where
  "pnlFallback =
     \<lparr>type = ''pnl'', success = False, data = None, fallback = Some (Some PNL_FALLBACK)\<rparr>"

text \<open>
  The argument is the outcome of \<open>getPnlSummary\<close>, \<open>None\<close> for a falsy response, and the
  number of years, 1 by default.
\<close>

definition pnlTry :: "error + PnlSummary option \<Rightarrow> nat \<Rightarrow> error + PnlData AnalysisResult" where
  "pnlTry pnlOutcome years =
     (case pnlOutcome of
        Inl e \<Rightarrow> Inl e
      | Inr None \<Rightarrow> Inr pnlFallback
      | Inr (Some response) \<Rightarrow>
         (case realized_pnl_usd response of
            None \<Rightarrow> Inr pnlFallback
          | Some pnlUsd \<Rightarrow>
              let pnlPercent = js_mul (realized_pnl_percent response) (Num 100) in
              if js_lt (js_abs pnlPercent) (Num 0.01) \<and> js_lt (js_abs pnlUsd) (Num 1)
              then Inr pnlFallback
              else Inr \<lparr>type = ''pnl'', success = True,
                        data = Some \<lparr>pnl_percent = pnlPercent, pnl_usd = pnlUsd,
                                     pnl_status = (if js_ge pnlPercent (Num 0) then ''GAIN'' else ''LOSS''),
                                     timeframe = (if years = 1 then ''in the past year''
                                                  else ''in the past '' @ showNat years @ '' years'')\<rparr>,
                        fallback = None\<rparr>))"

definition analyzePnl :: "error + PnlSummary option \<Rightarrow> nat \<Rightarrow> PnlData AnalysisResult" where
  "analyzePnl pnlOutcome years =
     (case pnlTry pnlOutcome years of Inl e \<Rightarrow> pnlFallback | Inr r \<Rightarrow> r)"

section \<open>Rugged projects (ruggedProjects.ts)\<close>

record ScreenedToken =
  token_name :: "string option"
  token_symbol :: "string option"
  liquidity_usd :: "number option"
  liquidity :: "number option"

record RuggedToken =
  name :: "string option"
  symbol :: "string option"
  rt_liquidity :: "number option"  \<comment> \<open>the property \<open>liquidity\<close> of a listed token\<close>

record RuggedData =
  ruggedCount :: nat
  ruggedTokens :: "RuggedToken list"

text \<open>The screener's response: its \<open>data\<close> property and, inside, \<open>items\<close>; either may be missing.\<close>

type_synonym ScreenerResponse = "ScreenedToken list option option"

definition RUGGED_FALLBACK :: string where
  "RUGGED_FALLBACK =
     ''No rugged projects detected'' @ [CHR 0xE2, CHR 0x80, CHR 0x94] @ ''clear skies ahead''"

definition ruggedClear :: "RuggedData AnalysisResult" where
  \<comment> \<open>the object of the four places that find nothing, the \<open>catch\<close> among them\<close>
  "ruggedClear =
     \<lparr>type = ''rugged_projects'', success = True,
      data = Some \<lparr>ruggedCount = 0, ruggedTokens = []\<rparr>,
      fallback = Some (Some RUGGED_FALLBACK)\<rparr>"

definition numberOr :: "number option \<Rightarrow> number option \<Rightarrow> number option" where
  \<comment> \<open>\<open>a || b\<close> on optional numbers: 0, \<open>NaN\<close> and a missing value are falsy\<close>
  "numberOr a b = (case a of None \<Rightarrow> b | Some n \<Rightarrow> if n = Num 0 \<or> n = NaN then b else Some n)"

fun watchlistOf :: "Holding list \<Rightarrow> string list" where
  \<comment> \<open>the filter and the map that build \<open>tokenAddresses\<close>\<close>
  "watchlistOf [] = []"
| "watchlistOf (holding # rest) =
     (case token_address holding of
        None \<Rightarrow> watchlistOf rest
      | Some a \<Rightarrow>
          if a \<noteq> [] \<and> toLowerCase a \<noteq> ''0xeeeeeeeeeeeeeeeeeeeeeeeeeeeeeeeeeeeeeeee''
          then a # watchlistOf rest
          else watchlistOf rest)"

definition ruggedTry ::
  "error + BalanceResponse \<Rightarrow> (string list \<Rightarrow> error + ScreenerResponse)
     \<Rightarrow> error + RuggedData AnalysisResult" where
  "ruggedTry balanceOutcome screenTokens =
     (case balanceOutcome of
        Inl e \<Rightarrow> Inl e
      | Inr None \<Rightarrow> Inr ruggedClear
      | Inr (Some holdings) \<Rightarrow>
          if length holdings = 0 then Inr ruggedClear
          else
            let tokenAddresses = watchlistOf holdings in
            if length tokenAddresses = 0 then Inr ruggedClear
            else
              (case screenTokens tokenAddresses of
                 Inl e \<Rightarrow> Inl e
               | Inr screenerResponse \<Rightarrow>
                   let ruggedTokens' =
                         (case screenerResponse of
                            None \<Rightarrow> []
                          | Some None \<Rightarrow> []
                          | Some (Some items) \<Rightarrow> items)
                   in if length ruggedTokens' = 0 then Inr ruggedClear
                      else Inr \<lparr>type = ''rugged_projects'', success = True,
                                data = Some \<lparr>ruggedCount = length ruggedTokens',
                                             ruggedTokens =
                                               map (\<lambda>token. \<lparr>name = token_name token,
                                                             symbol = token_symbol token,
                                                             rt_liquidity =
                                                               numberOr (liquidity_usd token)
                                                                        (liquidity token)\<rparr>)
                                                   ruggedTokens'\<rparr>,
                                fallback = None\<rparr>))"

definition analyzeRuggedProjects ::
  "error + BalanceResponse \<Rightarrow> (string list \<Rightarrow> error + ScreenerResponse)
     \<Rightarrow> RuggedData AnalysisResult" where
  "analyzeRuggedProjects balanceOutcome screenTokens =
     (case ruggedTry balanceOutcome screenTokens of Inl e \<Rightarrow> ruggedClear | Inr r \<Rightarrow> r)"

section \<open>Vocabulary of the statements\<close>

text \<open>
  The definitions of this section are not part of the program: they name what the
  properties below speak about.
\<close>

definition listOrEmpty :: "'a list option \<Rightarrow> 'a list" where
  "listOrEmpty xs = (case xs of None \<Rightarrow> [] | Some l \<Rightarrow> l)"

definition ethPriceOf :: "Transaction \<Rightarrow> number" where
  \<comment> \<open>the price that \<open>getEthPriceFromTransaction\<close> returns\<close>
  "ethPriceOf tx = (case getEthPriceFromTransaction tx of Inl e \<Rightarrow> Num 0 | Inr p \<Rightarrow> p)"

definition priced :: "Transaction \<Rightarrow> bool" where
  \<comment> \<open>the transaction yielded a usable price\<close>
  "priced tx = js_gt (ethPriceOf tx) (Num 0)"

definition buyTransactionsOf :: "error + TransactionsResponse \<Rightarrow> Transaction list" where
  \<comment> \<open>the buys among the transactions that the call delivered; a call that failed or
      answered without data delivered none\<close>
  "buyTransactionsOf transactionsOutcome =
     (case transactionsOutcome of
        Inl e \<Rightarrow> []
      | Inr response \<Rightarrow> filter isBuy (listOrEmpty response))"

definition totalEthEquivalentOf :: "Transaction list \<Rightarrow> number" where
  "totalEthEquivalentOf buys =
     foldl js_add (Num 0)
       (map (\<lambda>tx. js_div (volume_usd tx) (ethPriceOf tx)) (filter priced buys))"

text \<open>
  The order of preference for the implied ETH price of a buy, written after the words of
  the specification, over the JavaScript values alone and with none of the functions of
  the program. A transfer carries an
  explicit positive price of the native asset when its address is the native placeholder,
  in any letter case, and its \<open>price_usd\<close> is a number above 0. The price of a buy is the
  first such price among the tokens sent, else the first among the tokens received, else
  the estimate \<open>price_usd * volume_usd / value_usd\<close> from the first received token when
  that token has a positive price and a positive value, else 0.
\<close>

definition explicitNativePrice_spec :: "TokenTransfer \<Rightarrow> number option" where
  "explicitNativePrice_spec t =
     (case tt_token_address t of
        None \<Rightarrow> None
      | Some a \<Rightarrow>
          if toLowerCase a = ''0xeeeeeeeeeeeeeeeeeeeeeeeeeeeeeeeeeeeeeeee''
          then (case tt_price_usd t of
                  None \<Rightarrow> None
                | Some p \<Rightarrow> if js_lt (Num 0) p then Some p else None)
          else None)"

definition firstNativePrice_spec :: "TokenTransfer list option \<Rightarrow> number option" where
  "firstNativePrice_spec transfers =
     (case List.map_filter explicitNativePrice_spec (listOrEmpty transfers) of
        [] \<Rightarrow> None
      | p # _ \<Rightarrow> Some p)"

definition estimate_spec :: "Transaction \<Rightarrow> number option" where
  "estimate_spec tx =
     (case listOrEmpty (tokens_received tx) of
        [] \<Rightarrow> None
      | r # _ \<Rightarrow>
         (case tt_price_usd r of
            None \<Rightarrow> None
          | Some p \<Rightarrow>
             (case tt_value_usd r of
                None \<Rightarrow> None
              | Some v \<Rightarrow>
                  if js_lt (Num 0) p \<and> js_lt (Num 0) v
                  then Some (js_div (js_mul p (volume_usd tx)) v)
                  else None)))"

definition ethPrice_spec :: "Transaction \<Rightarrow> number" where
  "ethPrice_spec tx =
     (case firstNativePrice_spec (tokens_sent tx) of
        Some p \<Rightarrow> p
      | None \<Rightarrow>
         (case firstNativePrice_spec (tokens_received tx) of
            Some p \<Rightarrow> p
          | None \<Rightarrow> (case estimate_spec tx of Some p \<Rightarrow> p | None \<Rightarrow> Num 0)))"

definition tokenSetOk :: "string list \<Rightarrow> bool" where
  \<comment> \<open>duplicate-free, lower-cased, without the zero address\<close>
  "tokenSetOk s =
     (distinct s \<and>
      (\<forall>a \<in> set s. toLowerCase a = a \<and> a \<noteq> ''0x0000000000000000000000000000000000000000''))"


subsection \<open>Example inputs\<close>

text \<open>
  Two buys: one that sends native ETH priced at 2000 USD for a volume of 200 USD, one of
  100 USD whose transfers carry no price.
\<close>

definition example_buy_priced :: Transaction where
  "example_buy_priced =
     \<lparr>volume_usd = Num 200,
      tokens_sent = Some [\<lparr>tt_token_address = Some ''0xeeeeeeeeeeeeeeeeeeeeeeeeeeeeeeeeeeeeeeee'',
                           tt_price_usd = Some (Num 2000), tt_value_usd = Some (Num 200)\<rparr>],
      tokens_received = Some [\<lparr>tt_token_address = Some ''0x1111111111111111111111111111111111111111'',
                               tt_price_usd = None, tt_value_usd = None\<rparr>]\<rparr>"

definition example_buy_unpriced :: Transaction where
  "example_buy_unpriced =
     \<lparr>volume_usd = Num 100,
      tokens_sent = Some [],
      tokens_received = Some [\<lparr>tt_token_address = Some ''0x2222222222222222222222222222222222222222'',
                               tt_price_usd = None, tt_value_usd = None\<rparr>]\<rparr>"

text \<open>
  Two more buys, both paid with a stablecoin priced at 1 USD. The first receives a token
  and native ETH priced at 1800 USD; the second receives a token priced at 4 USD for a
  value of 100 USD, against a volume of 50 USD.
\<close>

definition example_buy_eth_received :: Transaction where
  "example_buy_eth_received =
     \<lparr>volume_usd = Num 90,
      tokens_sent = Some [\<lparr>tt_token_address = Some ''0xa0b86991c6218b36c1d19d4a2e9eb0ce3606eb48'',
                           tt_price_usd = Some (Num 1), tt_value_usd = Some (Num 90)\<rparr>],
      tokens_received = Some [\<lparr>tt_token_address = Some ''0x1111111111111111111111111111111111111111'',
                               tt_price_usd = Some (Num 3), tt_value_usd = Some (Num 45)\<rparr>,
                              \<lparr>tt_token_address = Some ''0xEeeeeEeeeEeEeeEeEeEeeEEEeeeeEeeeeeeeEEeE'',
                               tt_price_usd = Some (Num 1800), tt_value_usd = Some (Num 45)\<rparr>]\<rparr>"

definition example_buy_estimated :: Transaction where
  "example_buy_estimated =
     \<lparr>volume_usd = Num 50,
      tokens_sent = Some [\<lparr>tt_token_address = Some ''0xa0b86991c6218b36c1d19d4a2e9eb0ce3606eb48'',
                           tt_price_usd = Some (Num 1), tt_value_usd = Some (Num 50)\<rparr>],
      tokens_received = Some [\<lparr>tt_token_address = Some ''0x2222222222222222222222222222222222222222'',
                               tt_price_usd = Some (Num 4), tt_value_usd = Some (Num 100)\<rparr>]\<rparr>"

text \<open>A balance with native ETH at 2500 USD, and one with the token of the first buy.\<close>

definition example_eth_balance :: "Holding list" where
  "example_eth_balance =
     [\<lparr>token_address = Some ''0xeeeeeeeeeeeeeeeeeeeeeeeeeeeeeeeeeeeeeeee'', chain = Some ''ethereum'',
       balance = ''1'', value_usd = Num 2500, price_usd = Num 2500\<rparr>]"

definition example_portfolio_balance :: "Holding list" where
  "example_portfolio_balance =
     [\<lparr>token_address = Some ''0x1111111111111111111111111111111111111111'', chain = Some ''ethereum'',
       balance = ''1000'', value_usd = Num 300, price_usd = Num 0.3\<rparr>]"

text \<open>
  The portfolio of the specification's scenario: token A worth 100 USD for an amount of 10,
  token B worth 50 USD for an amount of 5; the price service knows an all-time high of 20
  for A and nothing for B.
\<close>

definition example_holdings :: "Holding list" where
  "example_holdings =
     [\<lparr>token_address = Some ''0xaaaaaaaaaaaaaaaaaaaaaaaaaaaaaaaaaaaaaaaa'', chain = Some ''ethereum'',
       balance = ''10'', value_usd = Num 100, price_usd = Num 10\<rparr>,
      \<lparr>token_address = Some ''0xbbbbbbbbbbbbbbbbbbbbbbbbbbbbbbbbbbbbbbbb'', chain = Some ''ethereum'',
       balance = ''5'', value_usd = Num 50, price_usd = Num 10\<rparr>]"

definition example_fetch :: AthFetch where
  "example_fetch tokens =
     Inr [(''0xaaaaaaaaaaaaaaaaaaaaaaaaaaaaaaaaaaaaaaaa'', \<lparr>athPrice = Num 20, athDate = Some 0\<rparr>)]"

definition example_fetch_zero :: AthFetch where
  \<comment> \<open>the same, with a record for B that holds no price\<close>
  "example_fetch_zero tokens =
     Inr [(''0xaaaaaaaaaaaaaaaaaaaaaaaaaaaaaaaaaaaaaaaa'', \<lparr>athPrice = Num 20, athDate = Some 0\<rparr>),
          (''0xbbbbbbbbbbbbbbbbbbbbbbbbbbbbbbbbbbbbbbbb'', \<lparr>athPrice = Num 0, athDate = None\<rparr>)]"

section \<open>Properties\<close>

subsection \<open>Strings and evaluation of the examples\<close>

lemma lowerChar_idem: "lowerChar (lowerChar c) = lowerChar c"
  unfolding lowerChar_def by (simp split: option.splits)

lemma toLowerCase_idem: "toLowerCase (toLowerCase s) = toLowerCase s"
  by (simp add: toLowerCase_def lowerChar_idem)

lemma toLowerCase_examples:
  "toLowerCase ''0xeeeeeeeeeeeeeeeeeeeeeeeeeeeeeeeeeeeeeeee'' = ''0xeeeeeeeeeeeeeeeeeeeeeeeeeeeeeeeeeeeeeeee''"
  "toLowerCase ''0x1111111111111111111111111111111111111111'' = ''0x1111111111111111111111111111111111111111''"
  "toLowerCase ''0x2222222222222222222222222222222222222222'' = ''0x2222222222222222222222222222222222222222''"
  "toLowerCase ''0xaaaaaaaaaaaaaaaaaaaaaaaaaaaaaaaaaaaaaaaa'' = ''0xaaaaaaaaaaaaaaaaaaaaaaaaaaaaaaaaaaaaaaaa''"
  "toLowerCase ''0xbbbbbbbbbbbbbbbbbbbbbbbbbbbbbbbbbbbbbbbb'' = ''0xbbbbbbbbbbbbbbbbbbbbbbbbbbbbbbbbbbbbbbbb''"
  "toLowerCase ''0xEEEEEEEEEEEEEEEEEEEEEEEEEEEEEEEEEEEEEEEE'' = ''0xeeeeeeeeeeeeeeeeeeeeeeeeeeeeeeeeeeeeeeee''"
  by (simp_all add: toLowerCase_def lowerChar_def)

lemma parseFloat_examples:
  "parseFloat ''10'' = Num 10"
  "parseFloat ''5'' = Num 5"
  by (simp_all add: parseFloat_def isWhiteSpace_def startsWith_def isDigit_def digitValue_def
        digitsValue_def parseExponent_def scale10_def)

lemma example_prices:
  "getEthPriceFromTransaction example_buy_priced = Inr (Num 2000)"
  "getEthPriceFromTransaction example_buy_unpriced = Inr (Num 0)"
  by (simp_all add: getEthPriceFromTransaction_def example_buy_priced_def example_buy_unpriced_def
        isPricedEth_def truthy_def ETH_ADDRESS_def toLowerCase_examples js_gt_def)

lemma example_isBuy: "isBuy example_buy_priced" "isBuy example_buy_unpriced"
  by (simp_all add: isBuy_def example_buy_priced_def example_buy_unpriced_def js_gt_def)

lemma example_volumes:
  "volume_usd example_buy_priced = Num 200" "volume_usd example_buy_unpriced = Num 100"
  by (simp_all add: example_buy_priced_def example_buy_unpriced_def)

lemma example_buyLoop:
  "buyLoop [example_buy_priced, example_buy_unpriced] (Num 0, Num 0, 0)
     = Inr (Num 300, Num (1 / 10), 1)"
  by (simp add: example_prices example_volumes js_gt_def)

lemma example_extract:
  "extractUniqueTokens [example_buy_priced, example_buy_unpriced] =
     Inr [''0x1111111111111111111111111111111111111111'',
          ''0x2222222222222222222222222222222222222222'']"
  by (simp add: extractUniqueTokens_def example_buy_priced_def example_buy_unpriced_def
        ETH_ADDRESS_def toLowerCase_examples setAdd_def)

lemma example_currentEthPrice:
  "getCurrentEthPriceFromNansen (Inr (Some example_eth_balance)) = Num 2500"
  by (simp add: getCurrentEthPriceFromNansen_def example_eth_balance_def truthy_def ETH_ADDRESS_def
        toLowerCase_examples js_gt_def)

lemma example_portfolioValue:
  "calculateCurrentPortfolioValue (Inr (Some example_portfolio_balance))
     [''0x1111111111111111111111111111111111111111'',
      ''0x2222222222222222222222222222222222222222''] = Num 300"
  by (simp add: calculateCurrentPortfolioValue_def example_portfolio_balance_def toLowerCase_examples)

lemma example_benchmark:
  "analyzeEthBenchmark (Inr (Some [example_buy_priced, example_buy_unpriced]))
      (Inr (Some example_eth_balance)) (Inr (Some example_portfolio_balance))
   = \<lparr>type = ''eth_benchmark'', success = True,
      data = Some \<lparr>portfolioValue = Num 300, ethEquivalentValue = Num 250,
                   performancePercent = Num 20, status = ''OUTPERFORMED''\<rparr>,
      fallback = None\<rparr>"
  by (simp add: analyzeEthBenchmark_def ethBenchmarkTry_def Let_def example_isBuy example_buyLoop
        example_extract example_currentEthPrice example_portfolioValue js_eq_def js_sub_def
        js_ge_def js_gt_def del: buyLoop.simps)

subsection \<open>The loop over the buys\<close>

lemma js_gt_zero_iff: "js_gt n (Num 0) \<longleftrightarrow> (\<exists>r. n = Num r \<and> 0 < r) \<or> n = PosInfinity"
  by (cases n) (simp_all add: js_gt_def)

lemma findEthPrice_find:
  "findEthPrice ts = Option.bind (find isPricedEth ts) tt_price_usd"
  by (induction ts) simp_all

lemma getEthPrice_buy_Inr:
  assumes "isBuy tx"
  shows "getEthPriceFromTransaction tx = Inr (ethPriceOf tx)"
  using assms unfolding isBuy_def ethPriceOf_def getEthPriceFromTransaction_def
  by (auto split: option.splits list.splits)

lemma buyLoop_eq:
  assumes "\<forall>tx \<in> set buys. isBuy tx"
  shows "buyLoop buys (u, e, n) =
     Inr (foldl js_add u (map volume_usd buys),
          foldl js_add e (map (\<lambda>tx. js_div (volume_usd tx) (ethPriceOf tx)) (filter priced buys)),
          n + length (filter priced buys))"
  using assms
proof (induction buys arbitrary: u e n)
  case Nil
  then show ?case by simp
next
  case (Cons tx txs)
  then have b: "getEthPriceFromTransaction tx = Inr (ethPriceOf tx)"
    by (simp add: getEthPrice_buy_Inr)
  from Cons have r: "\<forall>tx \<in> set txs. isBuy tx" by simp
  show ?case
    by (simp add: b Cons.IH[OF r] Let_def priced_def)
qed

lemma extractLoop_buys:
  assumes "\<forall>tx \<in> set buys. isBuy tx"
  shows "\<exists>l. extractLoop s buys = Inr l"
  using assms
  by (induction buys arbitrary: s) (auto simp: isBuy_def split: option.splits)

lemma benchmark_no_current_price:
  assumes "getCurrentEthPriceFromNansen ethBalanceOutcome = Num 0"
  shows "analyzeEthBenchmark transactionsOutcome ethBalanceOutcome portfolioBalanceOutcome
           = ethBenchmarkFallback"
  unfolding analyzeEthBenchmark_def ethBenchmarkTry_def
  using assms
  by (auto simp: Let_def js_eq_def split: sum.splits option.splits prod.splits)

lemma benchmark_threshold:
  fixes transactionsResponse :: TransactionsResponse
  assumes price: "getCurrentEthPriceFromNansen ethBalanceOutcome \<noteq> Num 0"
  shows "analyzeEthBenchmark (Inr transactionsResponse) ethBalanceOutcome portfolioBalanceOutcome
           = ethBenchmarkFallback
         \<longleftrightarrow> 2 * length (filter priced (buyTransactionsOf (Inr transactionsResponse)))
                < length (buyTransactionsOf (Inr transactionsResponse))
             \<or> totalEthEquivalentOf (buyTransactionsOf (Inr transactionsResponse)) = Num 0"
proof (cases "buyTransactionsOf (Inr transactionsResponse) = []")
  case True
  then have "totalEthEquivalentOf (buyTransactionsOf (Inr transactionsResponse)) = Num 0"
    by (simp add: totalEthEquivalentOf_def)
  moreover have "analyzeEthBenchmark (Inr transactionsResponse) ethBalanceOutcome
                   portfolioBalanceOutcome = ethBenchmarkFallback"
    using True unfolding buyTransactionsOf_def analyzeEthBenchmark_def ethBenchmarkTry_def listOrEmpty_def
    by (auto split: option.splits simp: Let_def)
  ultimately show ?thesis by simp
next
  case False
  define buys where "buys = buyTransactionsOf (Inr transactionsResponse)"
  from False obtain txs where txs: "transactionsResponse = Some txs" "filter isBuy txs = buys"
    unfolding buys_def buyTransactionsOf_def listOrEmpty_def by (cases transactionsResponse) auto
  with False have ne: "txs \<noteq> []" "buys \<noteq> []" unfolding buys_def by auto
  have allbuy: "\<forall>tx \<in> set buys. isBuy tx" using txs(2) by auto
  obtain l where l: "extractUniqueTokens buys = Inr l"
    using extractLoop_buys[OF allbuy] unfolding extractUniqueTokens_def by blast
  have loop: "buyLoop buys (Num 0, Num 0, 0) =
     Inr (foldl js_add (Num 0) (map volume_usd buys), totalEthEquivalentOf buys,
          length (filter priced buys))"
    using buyLoop_eq[OF allbuy, of "Num 0" "Num 0" 0] by (simp add: totalEthEquivalentOf_def)
  have half: "real (length (filter priced buys)) < real (length buys) * 0.5
              \<longleftrightarrow> 2 * length (filter priced buys) < length buys"
    by auto
  have "analyzeEthBenchmark (Inr (Some txs)) ethBalanceOutcome portfolioBalanceOutcome
           = ethBenchmarkFallback
         \<longleftrightarrow> 2 * length (filter priced buys) < length buys \<or> totalEthEquivalentOf buys = Num 0"
    unfolding analyzeEthBenchmark_def ethBenchmarkTry_def
    using price txs ne
    by (auto simp: Let_def loop l js_eq_def half ethBenchmarkFallback_def)
  then show ?thesis by (simp add: txs(1) buys_def)
qed

lemma benchmark_fallback_iff:
  "analyzeEthBenchmark transactionsOutcome ethBalanceOutcome portfolioBalanceOutcome
     = ethBenchmarkFallback
   \<longleftrightarrow> 2 * length (filter priced (buyTransactionsOf transactionsOutcome))
          < length (buyTransactionsOf transactionsOutcome)
       \<or> totalEthEquivalentOf (buyTransactionsOf transactionsOutcome) = Num 0
       \<or> getCurrentEthPriceFromNansen ethBalanceOutcome = Num 0"
proof (cases transactionsOutcome)
  case (Inl e)
  have "totalEthEquivalentOf (buyTransactionsOf (Inl e)) = Num 0"
    by (simp add: totalEthEquivalentOf_def buyTransactionsOf_def)
  moreover have "analyzeEthBenchmark (Inl e) ethBalanceOutcome portfolioBalanceOutcome
                   = ethBenchmarkFallback"
    by (simp add: analyzeEthBenchmark_def ethBenchmarkTry_def)
  ultimately show ?thesis using Inl by simp
next
  case (Inr response)
  show ?thesis
  proof (cases "getCurrentEthPriceFromNansen ethBalanceOutcome = Num 0")
    case True
    then show ?thesis using benchmark_no_current_price by simp
  next
    case False
    then show ?thesis using benchmark_threshold[OF False] Inr by simp
  qed
qed

subsection \<open>The implied ETH price of a buy\<close>

lemma toLowerCase_more_examples:
  "toLowerCase ''0xa0b86991c6218b36c1d19d4a2e9eb0ce3606eb48'' = ''0xa0b86991c6218b36c1d19d4a2e9eb0ce3606eb48''"
  "toLowerCase ''0xEeeeeEeeeEeEeeEeEeEeeEEEeeeeEeeeeeeeEEeE'' = ''0xeeeeeeeeeeeeeeeeeeeeeeeeeeeeeeeeeeeeeeee''"
  by (simp_all add: toLowerCase_def lowerChar_def)

lemma toLowerCase_ETH_ADDRESS:
  "toLowerCase ETH_ADDRESS = ''0xeeeeeeeeeeeeeeeeeeeeeeeeeeeeeeeeeeeeeeee''"
  by (simp add: ETH_ADDRESS_def toLowerCase_examples)

lemma isPricedEth_spec:
  "explicitNativePrice_spec t = (if isPricedEth t then tt_price_usd t else None)"
proof (cases "tt_token_address t")
  case None
  then show ?thesis
    by (simp add: explicitNativePrice_spec_def isPricedEth_def truthy_def)
next
  case (Some a)
  have ne: "toLowerCase a = ''0xeeeeeeeeeeeeeeeeeeeeeeeeeeeeeeeeeeeeeeee'' \<Longrightarrow> a \<noteq> []"
    by (auto simp: toLowerCase_def)
  show ?thesis
    using Some ne
    by (cases "tt_price_usd t")
       (auto simp: explicitNativePrice_spec_def isPricedEth_def truthy_def toLowerCase_ETH_ADDRESS
          js_gt_def)
qed

lemma findEthPrice_spec: "findEthPrice ts = firstNativePrice_spec (Some ts)"
proof (induction ts)
  case Nil
  then show ?case by (simp add: firstNativePrice_spec_def listOrEmpty_def)
next
  case (Cons t ts)
  show ?case
  proof (cases "isPricedEth t")
    case True
    then obtain p where p: "tt_price_usd t = Some p"
      by (cases "tt_price_usd t") (auto simp: isPricedEth_def)
    with True show ?thesis
      by (simp add: firstNativePrice_spec_def listOrEmpty_def isPricedEth_spec)
  next
    case False
    then show ?thesis
      using Cons.IH
      by (simp add: firstNativePrice_spec_def listOrEmpty_def isPricedEth_spec)
  qed
qed

lemma explicit_findEthPrice:
  "(case ts of None \<Rightarrow> None | Some l \<Rightarrow> findEthPrice l) = firstNativePrice_spec ts"
  by (cases ts) (simp_all add: findEthPrice_spec, simp add: firstNativePrice_spec_def listOrEmpty_def)

lemma estimate_formula:
  assumes "js_gt p (Num 0)" "js_gt vol (Num 0)" "js_gt v (Num 0)"
  shows "js_mul p (js_div vol v) = js_div (js_mul p vol) v"
  using assms by (auto simp: js_gt_zero_iff)

lemma getEthPrice_spec:
  assumes "isBuy tx"
  shows "getEthPriceFromTransaction tx = Inr (ethPrice_spec tx)"
proof -
  from assms obtain r rs where rcvd: "tokens_received tx = Some (r # rs)"
    and vol: "js_gt (volume_usd tx) (Num 0)"
    unfolding isBuy_def by (auto split: option.splits simp: neq_Nil_conv)
  have est: "\<And>p v. js_gt p (Num 0) \<Longrightarrow> js_gt v (Num 0) \<Longrightarrow>
      js_mul p (js_div (volume_usd tx) v) = js_div (js_mul p (volume_usd tx)) v"
    using vol by (simp add: estimate_formula)
  have vol': "js_lt (Num 0) (volume_usd tx)"
    using vol by (simp add: js_gt_def)
  have est': "\<And>p v. js_lt (Num 0) p \<Longrightarrow> js_lt (Num 0) v \<Longrightarrow>
      js_mul p (js_div (volume_usd tx) v) = js_div (js_mul p (volume_usd tx)) v"
    using est by (simp add: js_gt_def)
  show ?thesis
    unfolding getEthPriceFromTransaction_def explicit_findEthPrice ethPrice_spec_def
    by (auto simp: rcvd vol' est' estimate_spec_def listOrEmpty_def js_gt_def
             split: option.splits)
qed

lemma ethPriceOf_spec: "isBuy tx \<Longrightarrow> ethPriceOf tx = ethPrice_spec tx"
  by (simp add: ethPriceOf_def getEthPrice_spec)

lemma example_isBuy_more: "isBuy example_buy_eth_received" "isBuy example_buy_estimated"
  by (simp_all add: isBuy_def example_buy_eth_received_def example_buy_estimated_def js_gt_def)

lemma example_ethPrice_spec:
  "ethPrice_spec example_buy_priced = Num 2000"
  "ethPrice_spec example_buy_unpriced = Num 0"
  "ethPrice_spec example_buy_eth_received = Num 1800"
  "ethPrice_spec example_buy_estimated = Num 2"
  by (simp_all add: ethPrice_spec_def firstNativePrice_spec_def explicitNativePrice_spec_def
        estimate_spec_def listOrEmpty_def List.map_filter_simps example_buy_priced_def
        example_buy_unpriced_def example_buy_eth_received_def example_buy_estimated_def
        toLowerCase_examples toLowerCase_more_examples)

lemma example_volumes_more:
  "volume_usd example_buy_eth_received = Num 90" "volume_usd example_buy_estimated = Num 50"
  by (simp_all add: example_buy_eth_received_def example_buy_estimated_def)

text \<open>
  Claim C3. For every buy transaction \<open>getEthPriceFromTransaction\<close> returns the price
  chosen in the order of preference of the specification: the explicit positive price of
  a native-ETH transfer among the tokens sent, else among the tokens received, else the
  estimate \<open>price_usd * volume_usd / value_usd\<close> from the first received token, else 0.
  The loop over the buys adds every volume to \<open>totalUsdSpent\<close>, and adds \<open>volume / price\<close>
  to the ETH equivalent and 1 to the count only for the transactions whose price is
  positive.
\<close>

theorem implied_eth_price_preference:
  assumes "\<forall>tx \<in> set buys. isBuy tx"
  shows "(\<forall>tx \<in> set buys. getEthPriceFromTransaction tx = Inr (ethPrice_spec tx)) \<and>
         buyLoop buys (Num 0, Num 0, 0) =
           Inr (foldl js_add (Num 0) (map volume_usd buys),
                foldl js_add (Num 0)
                  (map (\<lambda>tx. js_div (volume_usd tx) (ethPrice_spec tx))
                       (filter (\<lambda>tx. js_gt (ethPrice_spec tx) (Num 0)) buys)),
                length (filter (\<lambda>tx. js_gt (ethPrice_spec tx) (Num 0)) buys))"
proof -
  have f: "filter priced buys = filter (\<lambda>tx. js_gt (ethPrice_spec tx) (Num 0)) buys"
    using assms by (intro filter_cong) (auto simp: priced_def ethPriceOf_spec)
  have m: "map (\<lambda>tx. js_div (volume_usd tx) (ethPriceOf tx)) (filter priced buys)
         = map (\<lambda>tx. js_div (volume_usd tx) (ethPrice_spec tx)) (filter priced buys)"
    using assms by (intro map_cong) (auto simp: ethPriceOf_spec)
  have "buyLoop buys (Num 0, Num 0, 0) =
     Inr (foldl js_add (Num 0) (map volume_usd buys),
          foldl js_add (Num 0)
            (map (\<lambda>tx. js_div (volume_usd tx) (ethPrice_spec tx)) (filter priced buys)),
          length (filter priced buys))"
    using buyLoop_eq[OF assms, of "Num 0" "Num 0" 0] by (simp only: m add_0)
  then show ?thesis
    using assms by (simp add: getEthPrice_spec f)
qed

text \<open>
  The four example buys show the four cases: the price of native ETH sent (2000); no
  price at all (0, and the buy is left out of the ETH equivalent); the price of native
  ETH received, spelled in mixed case, when the token sent is a stablecoin at 1 USD
  (1800, neither the stablecoin's 1 nor an estimate from the first token received); the
  estimate \<open>4 * 50 / 100 = 2\<close>. The loop spends \<open>200 + 100 + 90 + 50 = 440\<close> USD for
  \<open>200 / 2000 + 90 / 1800 + 50 / 2\<close> ETH on three priced buys.
\<close>

theorem implied_eth_price_preference_witness:
  "isBuy example_buy_priced \<and> isBuy example_buy_unpriced \<and>
   isBuy example_buy_eth_received \<and> isBuy example_buy_estimated \<and>
   getEthPriceFromTransaction example_buy_priced = Inr (Num 2000) \<and>
   getEthPriceFromTransaction example_buy_unpriced = Inr (Num 0) \<and>
   getEthPriceFromTransaction example_buy_eth_received = Inr (Num 1800) \<and>
   getEthPriceFromTransaction example_buy_estimated = Inr (Num 2) \<and>
   buyLoop [example_buy_priced, example_buy_unpriced, example_buy_eth_received,
            example_buy_estimated] (Num 0, Num 0, 0)
     = Inr (Num 440, Num (503 / 20), 3)"
proof -
  have h: "\<forall>tx \<in> set [example_buy_priced, example_buy_unpriced, example_buy_eth_received,
                        example_buy_estimated]. isBuy tx"
    by (simp add: example_isBuy example_isBuy_more)
  show ?thesis
    using h implied_eth_price_preference[OF h]
    by (simp add: example_ethPrice_spec example_volumes example_volumes_more js_gt_def)
qed

subsection \<open>The threshold of the ETH benchmark\<close>

lemma example_buyTransactionsOf:
  "buyTransactionsOf (Inr (Some [example_buy_priced, example_buy_unpriced]))
     = [example_buy_priced, example_buy_unpriced]"
  by (simp add: buyTransactionsOf_def listOrEmpty_def example_isBuy)

lemma example_priced: "priced example_buy_priced" "\<not> priced example_buy_unpriced"
  by (simp_all add: priced_def ethPriceOf_def example_prices js_gt_def)

lemma example_totalEthEquivalent:
  "totalEthEquivalentOf [example_buy_priced, example_buy_unpriced] = Num (1 / 10)"
  by (simp add: totalEthEquivalentOf_def example_priced ethPriceOf_def example_prices example_volumes)

text \<open>
  Claim C2, as amended. The threshold is inclusive: with the two example buys, one of them
  priced at 2000 USD for 200 USD of volume, and a current ETH price of 2500 USD, the
  analyzer succeeds with an ETH-equivalent value of 250. On every outcome of its three
  upstream calls the analyzer returns its fallback exactly when fewer than half of the
  buys yielded a usable price, or the total ETH equivalent is zero, or no current ETH
  price is available. A transaction call that failed or delivered nothing has no buys,
  hence a total of zero.
\<close>

theorem eth_benchmark_threshold:
  "analyzeEthBenchmark (Inr (Some [example_buy_priced, example_buy_unpriced]))
      (Inr (Some example_eth_balance)) (Inr (Some example_portfolio_balance))
     = \<lparr>type = ''eth_benchmark'', success = True,
        data = Some \<lparr>portfolioValue = Num 300, ethEquivalentValue = Num 250,
                     performancePercent = Num 20, status = ''OUTPERFORMED''\<rparr>,
        fallback = None\<rparr> \<and>
   (analyzeEthBenchmark transactionsOutcome ethBalanceOutcome portfolioBalanceOutcome
      = ethBenchmarkFallback
    \<longleftrightarrow> 2 * length (filter priced (buyTransactionsOf transactionsOutcome))
           < length (buyTransactionsOf transactionsOutcome)
        \<or> totalEthEquivalentOf (buyTransactionsOf transactionsOutcome) = Num 0
        \<or> getCurrentEthPriceFromNansen ethBalanceOutcome = Num 0)"
  using example_benchmark benchmark_fallback_iff
  by blast

theorem eth_benchmark_threshold_witness:
  "analyzeEthBenchmark (Inr (Some [example_buy_priced, example_buy_unpriced]))
      (Inr (Some example_eth_balance)) (Inr (Some example_portfolio_balance))
     \<noteq> ethBenchmarkFallback \<and>
   analyzeEthBenchmark (Inr (Some [example_buy_priced, example_buy_unpriced]))
      (Inr None) (Inr (Some example_portfolio_balance))
     = ethBenchmarkFallback \<and>
   analyzeEthBenchmark (Inr (Some [example_buy_unpriced]))
      (Inr (Some example_eth_balance)) (Inr (Some example_portfolio_balance))
     = ethBenchmarkFallback"
proof -
  have h: "getCurrentEthPriceFromNansen (Inr (Some example_eth_balance)) \<noteq> Num 0"
    by (simp add: example_currentEthPrice)
  have h0: "getCurrentEthPriceFromNansen (Inr None) = Num 0"
    by (simp add: getCurrentEthPriceFromNansen_def)
  have b1: "buyTransactionsOf (Inr (Some [example_buy_unpriced])) = [example_buy_unpriced]"
    by (simp add: buyTransactionsOf_def listOrEmpty_def example_isBuy)
  show ?thesis
    using h h0
      eth_benchmark_threshold[where ethBalanceOutcome = "Inr (Some example_eth_balance)"
        and transactionsOutcome = "Inr (Some [example_buy_priced, example_buy_unpriced])"
        and portfolioBalanceOutcome = "Inr (Some example_portfolio_balance)"]
      eth_benchmark_threshold[where ethBalanceOutcome = "Inr None"
        and transactionsOutcome = "Inr (Some [example_buy_priced, example_buy_unpriced])"
        and portfolioBalanceOutcome = "Inr (Some example_portfolio_balance)"]
      eth_benchmark_threshold[where ethBalanceOutcome = "Inr (Some example_eth_balance)"
        and transactionsOutcome = "Inr (Some [example_buy_unpriced])"
        and portfolioBalanceOutcome = "Inr (Some example_portfolio_balance)"]
    by (simp add: example_buyTransactionsOf b1 example_priced example_totalEthEquivalent)
qed

text \<open>
  The claim as stated fails: on the two example buys, of which half are priced and whose
  ETH equivalent is 0.1, the analyzer returns its fallback when the balance has no native
  ETH entry.
\<close>

theorem eth_benchmark_threshold_counterexample:
  "buyLoop (filter isBuy [example_buy_priced, example_buy_unpriced]) (Num 0, Num 0, 0)
     = Inr (Num 300, Num (1 / 10), 1) \<and>
   \<not> (real 1 < real (length (filter isBuy [example_buy_priced, example_buy_unpriced])) * 0.5) \<and>
   Num (1 / 10) \<noteq> Num 0 \<and>
   analyzeEthBenchmark (Inr (Some [example_buy_priced, example_buy_unpriced]))
      (Inr (Some [])) (Inr (Some example_portfolio_balance))
     = ethBenchmarkFallback"
  by (simp add: analyzeEthBenchmark_def ethBenchmarkTry_def Let_def example_isBuy example_buyLoop
        example_extract js_eq_def getCurrentEthPriceFromNansen_def del: buyLoop.simps)

subsection \<open>The purchased tokens\<close>

lemma setAdd_ok:
  assumes "tokenSetOk s" "toLowerCase a \<noteq> ''0x0000000000000000000000000000000000000000''"
  shows "tokenSetOk (setAdd s (toLowerCase a))"
  using assms unfolding tokenSetOk_def setAdd_def
  by (simp add: toLowerCase_idem)

lemma extractFromTransfers_ok:
  "tokenSetOk s \<Longrightarrow> tokenSetOk (extractFromTransfers s ts)"
proof (induction ts arbitrary: s)
  case Nil
  then show ?case by simp
next
  case (Cons t ts)
  show ?case
  proof (cases "tt_token_address t")
    case None
    then show ?thesis using Cons by simp
  next
    case (Some a)
    show ?thesis
    proof (cases "a \<noteq> [] \<and> a \<noteq> ETH_ADDRESS \<and>
             toLowerCase a \<noteq> ''0x0000000000000000000000000000000000000000''")
      case True
      then have "tokenSetOk (setAdd s (toLowerCase a))"
        using setAdd_ok Cons.prems by blast
      then have "tokenSetOk (extractFromTransfers (setAdd s (toLowerCase a)) ts)"
        by (rule Cons.IH)
      moreover have "extractFromTransfers s (t # ts)
                       = extractFromTransfers (setAdd s (toLowerCase a)) ts"
        using Some True by simp
      ultimately show ?thesis by (simp only:)
    next
      case False
      then have "extractFromTransfers s (t # ts) = extractFromTransfers s ts"
        using Some by auto
      then show ?thesis using Cons by (simp only:)
    qed
  qed
qed

lemma extractLoop_ok:
  "tokenSetOk s \<Longrightarrow> extractLoop s txs = Inr l \<Longrightarrow> tokenSetOk l"
proof (induction txs arbitrary: s)
  case Nil
  then show ?case by simp
next
  case (Cons tx txs)
  show ?case
  proof (cases "tokens_received tx")
    case None
    then show ?thesis using Cons.prems by simp
  next
    case (Some rcvd)
    then have "extractLoop (extractFromTransfers s rcvd) txs = Inr l"
      using Cons.prems by simp
    then show ?thesis
      using Cons.IH extractFromTransfers_ok Cons.prems(1) by blast
  qed
qed

text \<open>
  What holds of \<open>extractUniqueTokens\<close> on every list of transactions: the addresses it
  returns are distinct, lower-cased and different from the zero address.
\<close>

lemma extractUniqueTokens_ok:
  "extractUniqueTokens txs = Inr l \<Longrightarrow> tokenSetOk l"
  unfolding extractUniqueTokens_def
  using extractLoop_ok[of "[]" txs l] by (simp add: tokenSetOk_def)

text \<open>
  Claim C8. The claim says that the result never holds the native placeholder, in any
  letter case. The code compares the address with the lower-case constant before it
  lower-cases it: a buy that received the placeholder spelled in capitals puts the
  placeholder itself into the result.
\<close>

theorem extractUniqueTokens_keeps_capital_placeholder:
  "extractUniqueTokens
     [\<lparr>volume_usd = Num 100, tokens_sent = Some [],
       tokens_received =
         Some [\<lparr>tt_token_address = Some ''0xEEEEEEEEEEEEEEEEEEEEEEEEEEEEEEEEEEEEEEEE'',
                tt_price_usd = Some (Num 2000), tt_value_usd = Some (Num 100)\<rparr>]\<rparr>]
   = Inr [ETH_ADDRESS]"
  by (simp add: extractUniqueTokens_def ETH_ADDRESS_def setAdd_def toLowerCase_examples)

subsection \<open>The portfolio at its all-time high\<close>

lemma example_tokenHoldings: "filter isTokenHolding example_holdings = example_holdings"
  by (simp add: example_holdings_def isTokenHolding_def truthy_def toLowerCase_examples js_gt_def)

lemma example_currentValue: "sumValueUsd (Num 0) example_holdings = Num 150"
  by (simp add: example_holdings_def)

lemma example_requests:
  "requestsOf example_holdings =
     Inr [(Some ''ethereum'', ''0xaaaaaaaaaaaaaaaaaaaaaaaaaaaaaaaaaaaaaaaa''),
          (Some ''ethereum'', ''0xbbbbbbbbbbbbbbbbbbbbbbbbbbbbbbbbbbbbbbbb'')]"
  by (simp add: example_holdings_def)

lemma example_athLoop:
  assumes "athPrices ''0xaaaaaaaaaaaaaaaaaaaaaaaaaaaaaaaaaaaaaaaa''
             = Some \<lparr>athPrice = Num 20, athDate = Some 0\<rparr>"
      and "athPrices ''0xbbbbbbbbbbbbbbbbbbbbbbbbbbbbbbbbbbbbbbbb'' = None"
  shows "athLoop athPrices example_holdings (Num 0, 0) = Inr (Num 250, 1)"
  using assms
  by (simp add: example_holdings_def toLowerCase_examples parseFloat_examples js_gt_def)

lemma example_potentialGain:
  "potentialGainStep (Num 150) (Num 250) 1 =
     \<lparr>type = ''portfolio_ath'', success = True,
      data = Some \<lparr>currentValue = Num 150, athValue = Num 250,
                   potentialGainPercent = Num (200 / 3)\<rparr>,
      fallback = None\<rparr>"
  by (simp add: potentialGainStep_def js_sub_def)

lemma example_cacheLoop:
  "cacheLoop now example_holdings (Map.empty, [], 0, emptyCache) =
     (Inr (Map.empty,
           [(Some ''ethereum'', ''0xaaaaaaaaaaaaaaaaaaaaaaaaaaaaaaaaaaaaaaaa''),
            (Some ''ethereum'', ''0xbbbbbbbbbbbbbbbbbbbbbbbbbbbbbbbbbbbbbbbb'')], 0),
      \<lparr>entries = [], hitCount = 0, missCount = 2\<rparr>)"
  by (simp add: example_holdings_def athCache_get_def emptyCache_def numeral_2_eq_2)

lemma example_athLoop_zero:
  assumes "athPrices ''0xaaaaaaaaaaaaaaaaaaaaaaaaaaaaaaaaaaaaaaaa''
             = Some \<lparr>athPrice = Num 20, athDate = Some 0\<rparr>"
      and "athPrices ''0xbbbbbbbbbbbbbbbbbbbbbbbbbbbbbbbbbbbbbbbb''
             = Some \<lparr>athPrice = Num 0, athDate = None\<rparr>"
  shows "athLoop athPrices example_holdings (Num 0, 0) = Inr (Num 250, 1)"
  using assms
  by (simp add: example_holdings_def toLowerCase_examples parseFloat_examples js_gt_def)

lemma example_portfolio:
  "analyzePortfolioATH (Inr (Some example_holdings)) example_fetch
     = potentialGainStep (Num 150) (Num 250) 1"
  "analyzePortfolioATH (Inr (Some example_holdings)) example_fetch_zero
     = potentialGainStep (Num 150) (Num 250) 1"
  "fst (analyzePortfolioATH_prd (Inr (Some example_holdings)) example_fetch now emptyCache)
     = potentialGainStep (Num 150) (Num 250) 1"
proof -
  have ne: "example_holdings \<noteq> []"
    by (simp add: example_holdings_def)
  have a: "athLoop (Map.empty(''0xaaaaaaaaaaaaaaaaaaaaaaaaaaaaaaaaaaaaaaaa''
                       \<mapsto> \<lparr>athPrice = Num 20, athDate = Some 0\<rparr>))
             example_holdings (Num 0, 0) = Inr (Num 250, 1)"
    by (rule example_athLoop) simp_all
  have z: "athLoop (Map.empty(''0xbbbbbbbbbbbbbbbbbbbbbbbbbbbbbbbbbbbbbbbb''
                       \<mapsto> \<lparr>athPrice = Num 0, athDate = None\<rparr>,
                     ''0xaaaaaaaaaaaaaaaaaaaaaaaaaaaaaaaaaaaaaaaa''
                       \<mapsto> \<lparr>athPrice = Num 20, athDate = Some 0\<rparr>))
             example_holdings (Num 0, 0) = Inr (Num 250, 1)"
    by (rule example_athLoop_zero) simp_all
  show "analyzePortfolioATH (Inr (Some example_holdings)) example_fetch
     = potentialGainStep (Num 150) (Num 250) 1"
    unfolding analyzePortfolioATH_def portfolioAthTry_def
    by (simp add: example_tokenHoldings example_currentValue example_requests example_fetch_def
          a ne Let_def)
  show "analyzePortfolioATH (Inr (Some example_holdings)) example_fetch_zero
     = potentialGainStep (Num 150) (Num 250) 1"
    unfolding analyzePortfolioATH_def portfolioAthTry_def
    by (simp add: example_tokenHoldings example_currentValue example_requests
          example_fetch_zero_def z ne Let_def)
  show "fst (analyzePortfolioATH_prd (Inr (Some example_holdings)) example_fetch now emptyCache)
     = potentialGainStep (Num 150) (Num 250) 1"
    unfolding analyzePortfolioATH_prd_def portfolioAthTry_prd_def
    by (simp add: example_tokenHoldings example_currentValue example_cacheLoop example_fetch_def
          a ne Let_def del: cacheLoop.simps)
qed

text \<open>
  Claim C1. On the scenario of the specification (A: value 100, amount 10, all-time high 20;
  B: value 50, amount 5, no all-time high) both versions of \<open>analyzePortfolioATH\<close> succeed
  with a current value of 150, a value at the all-time highs of \<open>10 * 20 + 50 = 250\<close>, B
  counting for its current value, and a potential gain of \<open>200 / 3\<close> percent, which is 66.67
  to two decimals. The result is the same when the price service answers for B with a
  record whose price is 0.
\<close>

theorem portfolio_ath_scenario:
  "analyzePortfolioATH (Inr (Some example_holdings)) example_fetch
     = \<lparr>type = ''portfolio_ath'', success = True,
        data = Some \<lparr>currentValue = Num 150, athValue = Num 250,
                     potentialGainPercent = Num (200 / 3)\<rparr>,
        fallback = None\<rparr> \<and>
   analyzePortfolioATH (Inr (Some example_holdings)) example_fetch_zero
     = analyzePortfolioATH (Inr (Some example_holdings)) example_fetch \<and>
   fst (analyzePortfolioATH_prd (Inr (Some example_holdings)) example_fetch now emptyCache)
     = analyzePortfolioATH (Inr (Some example_holdings)) example_fetch \<and>
   \<bar>200 / 3 - 66.67\<bar> < (0.005 :: real)"
  unfolding example_portfolio example_potentialGain by simp

subsection \<open>The current value is positive\<close>











subsection \<open>The price cache\<close>

lemma map_of_update_same:
  "map_of (AList.update k v al) k = Some v"
  by (simp add: update_conv')

text \<open>
  Claim C5. After \<open>set\<close> with a positive price, \<open>get\<close> with an address that differs from
  the one set by the case of its letters at most answers the record just set, as long as
  no more than 24 hours have passed; once more than 24 hours have passed it answers
  absent, and the entries of the cache are the same as before the \<open>get\<close>: the stale entry
  is still there.
\<close>

theorem cache_get_after_set:
  assumes "js_gt p (Num 0)" and "toLowerCase a' = toLowerCase a"
  shows "fst (athCache_get (athCache_set c now a p d) now a') = Some \<lparr>athPrice = p, athDate = d\<rparr> \<and>
         (later - now \<le> CACHE_TTL_MS \<longrightarrow>
            fst (athCache_get (athCache_set c now a p d) later a')
              = Some \<lparr>athPrice = p, athDate = d\<rparr>) \<and>
         (CACHE_TTL_MS < later - now \<longrightarrow>
            fst (athCache_get (athCache_set c now a p d) later a') = None \<and>
            entries (snd (athCache_get (athCache_set c now a p d) later a'))
              = entries (athCache_set c now a p d) \<and>
            map_of (entries (snd (athCache_get (athCache_set c now a p d) later a')))
                   (toLowerCase a)
              = Some \<lparr>athRecord = \<lparr>athPrice = p, athDate = d\<rparr>, cachedAt = now\<rparr> \<and>
            missCount (snd (athCache_get (athCache_set c now a p d) later a'))
              = Suc (missCount c))"
  using assms
  by (simp add: athCache_get_def athCache_set_def map_of_update_same CACHE_TTL_MS_def)

theorem cache_get_after_set_witness:
  "js_gt (Num 20) (Num 0) \<and> toLowerCase ''0xabc'' = toLowerCase ''0xABC'' \<and>
   fst (athCache_get (athCache_set emptyCache 1000 ''0xABC'' (Num 20) (Some 5)) 1000 ''0xabc'')
     = Some \<lparr>athPrice = Num 20, athDate = Some 5\<rparr> \<and>
   fst (athCache_get (athCache_set emptyCache 1000 ''0xABC'' (Num 20) (Some 5)) 86401001 ''0xabc'')
     = None"
proof -
  have h1: "js_gt (Num 20) (Num 0)" by (simp add: js_gt_def)
  have h2: "toLowerCase ''0xabc'' = toLowerCase ''0xABC''"
    by (simp add: toLowerCase_def lowerChar_def)
  show ?thesis
    using h1 h2 cache_get_after_set[OF h1 h2, of emptyCache 1000 "Some 5" 86401001]
    by (simp add: CACHE_TTL_MS_def)
qed

subsection \<open>Profit and loss\<close>

lemma showNat_digit: "n < 10 \<Longrightarrow> showNat n = [digitChar n]"
  by (subst showNat.simps) simp

lemma toFixed_example: "toFixed (Num (- 0.02273911194097849)) 2 = Some ''-0.02''"
proof -
  have n: "nat \<lfloor>\<bar>- 0.02273911194097849 :: real\<bar> * 10 ^ 2 + 1 / 2\<rfloor> = 2"
    by simp
  have s: "showNat 2 = ''2''"
    by (simp add: showNat_digit digitChar_def)
  show ?thesis
    unfolding toFixed_def
    by (simp add: n s Let_def del: showNat.simps)
qed

lemma formatPercent_example: "formatPercent (Num (- 0.02273911194097849)) 2 = Some ''-0.02%''"
  unfolding formatPercent_def toFixed_example
  by (simp add: js_ge_def js_gt_def js_eq_def)

lemma pnl_valid_response:
  "analyzePnl (Inr (Some \<lparr>realized_pnl_usd = Some u, realized_pnl_percent = p\<rparr>)) years =
     (if js_lt (js_abs (js_mul p (Num 100))) (Num 0.01) \<and> js_lt (js_abs u) (Num 1)
      then pnlFallback
      else \<lparr>type = ''pnl'', success = True,
            data = Some \<lparr>pnl_percent = js_mul p (Num 100), pnl_usd = u,
                         pnl_status = (if js_ge (js_mul p (Num 100)) (Num 0)
                                       then ''GAIN'' else ''LOSS''),
                         timeframe = (if years = 1 then ''in the past year''
                                      else ''in the past '' @ showNat years @ '' years'')\<rparr>,
            fallback = None\<rparr>)"
  by (simp add: analyzePnl_def pnlTry_def Let_def del: showNat.simps)

lemma pnl_no_amount:
  "analyzePnl (Inr None) years = pnlFallback"
  "analyzePnl (Inr (Some \<lparr>realized_pnl_usd = None, realized_pnl_percent = p\<rparr>)) years = pnlFallback"
  by (simp_all add: analyzePnl_def pnlTry_def)

lemma pnl_fallback_iff:
  "analyzePnl pnlOutcome years = pnlFallback \<longleftrightarrow>
     (case pnlOutcome of
        Inl e \<Rightarrow> True
      | Inr None \<Rightarrow> True
      | Inr (Some response) \<Rightarrow>
         (case realized_pnl_usd response of
            None \<Rightarrow> True
          | Some u \<Rightarrow>
              js_lt (js_abs (js_mul (realized_pnl_percent response) (Num 100))) (Num 0.01) \<and>
              js_lt (js_abs u) (Num 1)))"
proof -
  have neq: "\<And>d. \<lparr>type = ''pnl'', success = True, data = Some d, fallback = None\<rparr> \<noteq> pnlFallback"
    by (simp add: pnlFallback_def)
  show ?thesis
    unfolding analyzePnl_def pnlTry_def
    using neq
    by (auto simp: Let_def simp del: showNat.simps split: sum.splits option.splits)
qed

text \<open>
  Claim C9, as amended. \<open>analyzePnl\<close> returns its fallback exactly when the summary call
  throws, or the response is missing, or the response has no \<open>realized_pnl_usd\<close>, or the
  percentage, scaled by 100, is below 0.01 in magnitude and the amount is below 1 USD in
  magnitude; otherwise it succeeds and reports the scaled percentage. The raw fraction
  \<open>-0.0002273911194097849\<close> is reported as \<open>-0.02273911194097849\<close>, which \<open>formatPercent\<close>
  renders as \<open>-0.02%\<close>; a response of 0.005 percent and half a dollar, neither of them
  zero, gives the fallback.
\<close>

theorem pnl_scaling_and_threshold:
  "(analyzePnl pnlOutcome years = pnlFallback \<longleftrightarrow>
      (case pnlOutcome of
         Inl e \<Rightarrow> True
       | Inr None \<Rightarrow> True
       | Inr (Some response) \<Rightarrow>
          (case realized_pnl_usd response of
             None \<Rightarrow> True
           | Some u \<Rightarrow>
               js_lt (js_abs (js_mul (realized_pnl_percent response) (Num 100))) (Num 0.01) \<and>
               js_lt (js_abs u) (Num 1)))) \<and>
   (analyzePnl (Inr (Some \<lparr>realized_pnl_usd = Some u, realized_pnl_percent = p\<rparr>)) years
      = pnlFallback
    \<longleftrightarrow> js_lt (js_abs (js_mul p (Num 100))) (Num 0.01) \<and> js_lt (js_abs u) (Num 1)) \<and>
   map_option pnl_percent
      (data (analyzePnl (Inr (Some \<lparr>realized_pnl_usd = Some u, realized_pnl_percent = p\<rparr>)) years))
     = (if js_lt (js_abs (js_mul p (Num 100))) (Num 0.01) \<and> js_lt (js_abs u) (Num 1)
        then None else Some (js_mul p (Num 100))) \<and>
   map_option pnl_percent
      (data (analyzePnl (Inr (Some \<lparr>realized_pnl_usd = Some u,
                                      realized_pnl_percent = Num (- 0.0002273911194097849)\<rparr>)) 1))
     = Some (Num (- 0.02273911194097849)) \<and>
   formatPercent (Num (- 0.02273911194097849)) 2 = Some ''-0.02%'' \<and>
   analyzePnl (Inr (Some \<lparr>realized_pnl_usd = Some (Num 0.5),
                            realized_pnl_percent = Num 0.00005\<rparr>)) 1
     = pnlFallback"
proof -
  have neq: "\<And>d. \<lparr>type = ''pnl'', success = True, data = Some d, fallback = None\<rparr> \<noteq> pnlFallback"
    by (simp add: pnlFallback_def)
  have 1: "analyzePnl (Inr (Some \<lparr>realized_pnl_usd = Some u, realized_pnl_percent = p\<rparr>)) years
      = pnlFallback
    \<longleftrightarrow> js_lt (js_abs (js_mul p (Num 100))) (Num 0.01) \<and> js_lt (js_abs u) (Num 1)"
    unfolding pnl_valid_response using neq by (simp del: showNat.simps)
  have 2: "map_option pnl_percent
      (data (analyzePnl (Inr (Some \<lparr>realized_pnl_usd = Some u, realized_pnl_percent = p\<rparr>)) years))
     = (if js_lt (js_abs (js_mul p (Num 100))) (Num 0.01) \<and> js_lt (js_abs u) (Num 1)
        then None else Some (js_mul p (Num 100)))"
    unfolding pnl_valid_response by (simp add: pnlFallback_def del: showNat.simps)
  have 3: "map_option pnl_percent
      (data (analyzePnl (Inr (Some \<lparr>realized_pnl_usd = Some u,
                                      realized_pnl_percent = Num (- 0.0002273911194097849)\<rparr>)) 1))
     = Some (Num (- 0.02273911194097849))"
    unfolding pnl_valid_response by (simp add: pnlFallback_def del: showNat.simps)
  have 4: "analyzePnl (Inr (Some \<lparr>realized_pnl_usd = Some (Num 0.5),
                            realized_pnl_percent = Num 0.00005\<rparr>)) 1 = pnlFallback"
    unfolding pnl_valid_response by (simp del: showNat.simps)
  show ?thesis
    using 1 2 3 4 formatPercent_example pnl_fallback_iff[of pnlOutcome years] by blast
qed

text \<open>
  The claim as stated fails: a response that reports a gain of 50 percent and has no
  \<open>realized_pnl_usd\<close> gives the fallback, and so do a missing response and a call that
  throws, although the scaled percentage, 50, is not below 0.01.
\<close>

theorem pnl_scaling_and_threshold_counterexample:
  "analyzePnl (Inr (Some \<lparr>realized_pnl_usd = None, realized_pnl_percent = Num 0.5\<rparr>)) 1
     = pnlFallback \<and>
   \<not> js_lt (js_abs (js_mul (Num 0.5) (Num 100))) (Num 0.01) \<and>
   analyzePnl (Inr None) 1 = pnlFallback \<and>
   analyzePnl (Inl (UpstreamError ''ECONNRESET'')) 1 = pnlFallback"
  by (simp add: analyzePnl_def pnlTry_def)

subsection \<open>The shape of the results\<close>
















subsection \<open>Upstream failures\<close>

lemma pnl_upstream_failure: "analyzePnl (Inl e) years = pnlFallback"
  by (simp add: analyzePnl_def pnlTry_def)

lemma labels_upstream_failure:
  "analyzeLabels (Inl e) = labelsFallback" "analyzeLabels_prd (Inl e) = labelsFallback"
  by (simp_all add: analyzeLabels_def labelsTry_def analyzeLabels_prd_def labelsTry_prd_def)

lemma smartMoney_upstream_failure:
  "analyzeSmartMoney (Inl e) = smartMoneyFallback"
  "analyzeSmartMoney_prd (Inl e) = smartMoneyFallback"
  by (simp_all add: analyzeSmartMoney_def smartMoneyTry_def analyzeSmartMoney_prd_def
        smartMoneyTry_prd_def)

lemma rugged_upstream_failure:
  "analyzeRuggedProjects (Inl e) screenTokens = ruggedClear"
  "analyzeRuggedProjects balanceOutcome (\<lambda>tokenAddresses. Inl e) = ruggedClear"
  by (auto simp: analyzeRuggedProjects_def ruggedTry_def Let_def split: sum.splits option.splits)

lemma benchmark_upstream_failure:
  "analyzeEthBenchmark (Inl e) ethBalanceOutcome portfolioBalanceOutcome = ethBenchmarkFallback"
  "analyzeEthBenchmark transactionsOutcome (Inl e) portfolioBalanceOutcome = ethBenchmarkFallback"
proof -
  show "analyzeEthBenchmark (Inl e) ethBalanceOutcome portfolioBalanceOutcome = ethBenchmarkFallback"
    by (simp add: analyzeEthBenchmark_def ethBenchmarkTry_def)
  have "getCurrentEthPriceFromNansen (Inl e) = Num 0"
    by (simp add: getCurrentEthPriceFromNansen_def)
  then show "analyzeEthBenchmark transactionsOutcome (Inl e) portfolioBalanceOutcome
               = ethBenchmarkFallback"
    by (rule benchmark_no_current_price)
qed

lemma portfolioValue_failure_as_missing:
  "calculateCurrentPortfolioValue (Inl e) tokenAddresses
     = calculateCurrentPortfolioValue (Inr None) tokenAddresses"
  by (simp add: calculateCurrentPortfolioValue_def)

lemma benchmark_portfolio_failure_as_missing:
  "analyzeEthBenchmark transactionsOutcome ethBalanceOutcome (Inl e)
     = analyzeEthBenchmark transactionsOutcome ethBalanceOutcome (Inr None)"
  unfolding analyzeEthBenchmark_def ethBenchmarkTry_def portfolioValue_failure_as_missing
  by (rule refl)

lemma portfolioAth_upstream_failure:
  "analyzePortfolioATH (Inl e) fetch = portfolioAthFallback"
  "analyzePortfolioATH balanceOutcome (\<lambda>tokens. Inl e) = portfolioAthFallback"
  by (auto simp: analyzePortfolioATH_def portfolioAthTry_def Let_def
           split: sum.splits option.splits)

lemma portfolioAth_prd_upstream_failure:
  "fst (analyzePortfolioATH_prd (Inl e) fetch now cache) = portfolioAthFallback"
  by (simp add: analyzePortfolioATH_prd_def portfolioAthTry_prd_def)

lemma portfolioAth_prd_fetch_failure:
  "fst (analyzePortfolioATH_prd balanceOutcome (\<lambda>tokens. Inl e) now cache) = portfolioAthFallback \<or>
   (\<forall>fetch. analyzePortfolioATH_prd balanceOutcome fetch now cache
            = analyzePortfolioATH_prd balanceOutcome (\<lambda>tokens. Inl e) now cache)"
  unfolding analyzePortfolioATH_prd_def portfolioAthTry_prd_def
  by (auto simp: Let_def split: sum.splits option.splits prod.splits)

lemma labelLoop_missing_label:
  "None \<in> set labelNames \<Longrightarrow> labelLoop labelNames acc = Inl TypeError"
proof (induction labelNames arbitrary: acc)
  case Nil
  then show ?case by simp
next
  case (Cons l ls)
  show ?case
  proof (cases l)
    case None
    then show ?thesis by (cases acc) simp
  next
    case (Some lbl)
    with Cons.prems have "None \<in> set ls" by simp
    then have "\<And>acc'. labelLoop ls acc' = Inl TypeError" by (rule Cons.IH)
    then show ?thesis using Some by (cases acc) (simp split: option.splits)
  qed
qed

lemma smartMoneyLoop_missing_label:
  "None \<in> set labelNames \<Longrightarrow> smartMoneyLoop labelNames found = Inl TypeError"
  by (induction labelNames arbitrary: found) (auto split: option.splits)

lemma malformed_labels:
  assumes "None \<in> set (map lbl_label response)"
  shows "analyzeLabels (Inr (Some response)) = labelsFallback"
    and "analyzeSmartMoney (Inr (Some response)) = smartMoneyFallback"
  using assms labelLoop_missing_label[OF assms] smartMoneyLoop_missing_label[OF assms]
  by (simp_all add: analyzeLabels_def labelsTry_def analyzeSmartMoney_def smartMoneyTry_def)

text \<open>
  Claim C7, as amended. Every analyzer is a total function to results: nothing is thrown
  past it. When the upstream call that an analyzer makes itself is rejected, the result is
  the analyzer's fixed fallback object: the summary call of P and L, the labels call of the
  labels and smart-money analyzers, the balance and screener calls of the rugged-projects
  analyzer, the transaction call and the balance call for the current ETH price of the
  ETH benchmark, the balance call and the price fetch of the portfolio analyzer (with the
  cache, the fetch only when it is needed). A label entry without its label makes the
  first labels and smart-money analyzers throw inside and return the fallback. The
  rejection of the balance call inside \<open>calculateCurrentPortfolioValue\<close> is not turned into
  the fallback: the ETH benchmark goes on as if the balance were missing, with a portfolio
  value of 0.
\<close>

theorem upstream_failures_give_fallback:
  "analyzePnl (Inl e) years = pnlFallback \<and>
   analyzeLabels (Inl e) = labelsFallback \<and>
   analyzeLabels_prd (Inl e) = labelsFallback \<and>
   analyzeSmartMoney (Inl e) = smartMoneyFallback \<and>
   analyzeSmartMoney_prd (Inl e) = smartMoneyFallback \<and>
   analyzeRuggedProjects (Inl e) screenTokens = ruggedClear \<and>
   analyzeRuggedProjects balanceOutcome (\<lambda>tokenAddresses. Inl e) = ruggedClear \<and>
   analyzeEthBenchmark (Inl e) ethBalanceOutcome portfolioBalanceOutcome = ethBenchmarkFallback \<and>
   analyzeEthBenchmark transactionsOutcome (Inl e) portfolioBalanceOutcome = ethBenchmarkFallback \<and>
   analyzeEthBenchmark transactionsOutcome ethBalanceOutcome (Inl e)
     = analyzeEthBenchmark transactionsOutcome ethBalanceOutcome (Inr None) \<and>
   analyzePortfolioATH (Inl e) fetch = portfolioAthFallback \<and>
   analyzePortfolioATH balanceOutcome (\<lambda>tokens. Inl e) = portfolioAthFallback \<and>
   fst (analyzePortfolioATH_prd (Inl e) fetch now cache) = portfolioAthFallback \<and>
   (fst (analyzePortfolioATH_prd balanceOutcome (\<lambda>tokens. Inl e) now cache) = portfolioAthFallback \<or>
    (\<forall>fetch'. analyzePortfolioATH_prd balanceOutcome fetch' now cache
             = analyzePortfolioATH_prd balanceOutcome (\<lambda>tokens. Inl e) now cache)) \<and>
   (None \<in> set (map lbl_label response) \<longrightarrow>
      analyzeLabels (Inr (Some response)) = labelsFallback \<and>
      analyzeSmartMoney (Inr (Some response)) = smartMoneyFallback)"
proof -
  have m: "None \<in> set (map lbl_label response) \<longrightarrow>
      analyzeLabels (Inr (Some response)) = labelsFallback \<and>
      analyzeSmartMoney (Inr (Some response)) = smartMoneyFallback"
    using malformed_labels by blast
  show ?thesis
    using m benchmark_portfolio_failure_as_missing[of transactionsOutcome ethBalanceOutcome e]
      portfolioAth_prd_fetch_failure[of balanceOutcome e now cache]
    by (simp only: pnl_upstream_failure labels_upstream_failure smartMoney_upstream_failure
          rugged_upstream_failure benchmark_upstream_failure portfolioAth_upstream_failure
          portfolioAth_prd_upstream_failure simp_thms)
qed

theorem upstream_failures_give_fallback_witness:
  "None \<in> set (map lbl_label [\<lparr>lbl_label = None, lbl_category = Some ''behavioral''\<rparr>]) \<and>
   analyzeLabels (Inr (Some [\<lparr>lbl_label = None, lbl_category = Some ''behavioral''\<rparr>]))
     = labelsFallback \<and>
   analyzeSmartMoney (Inr (Some [\<lparr>lbl_label = None, lbl_category = Some ''behavioral''\<rparr>]))
     = smartMoneyFallback \<and>
   analyzePnl (Inl (UpstreamError ''ECONNRESET'')) 1 = pnlFallback"
proof -
  have h: "None \<in> set (map lbl_label [\<lparr>lbl_label = None, lbl_category = Some ''behavioral''\<rparr>])"
    by simp
  show ?thesis
    using h upstream_failures_give_fallback[where
        response = "[\<lparr>lbl_label = None, lbl_category = Some ''behavioral''\<rparr>]"
        and e = "UpstreamError ''ECONNRESET''" and years = 1]
    by blast
qed

text \<open>
  The claim as stated fails: with the two example buys and a current ETH price, the
  rejection of the last balance call gives a success that reports a portfolio worth
  nothing and an underperformance of 100 percent, not the fallback.
\<close>

theorem upstream_failures_give_fallback_counterexample:
  "analyzeEthBenchmark (Inr (Some [example_buy_priced, example_buy_unpriced]))
      (Inr (Some example_eth_balance)) (Inl (UpstreamError ''ECONNRESET''))
     = \<lparr>type = ''eth_benchmark'', success = True,
        data = Some \<lparr>portfolioValue = Num 0, ethEquivalentValue = Num 250,
                     performancePercent = Num (- 100), status = ''UNDERPERFORMED''\<rparr>,
        fallback = None\<rparr>"
  by (simp add: analyzeEthBenchmark_def ethBenchmarkTry_def Let_def example_isBuy example_buyLoop
        example_extract example_currentEthPrice js_eq_def js_sub_def js_ge_def js_gt_def
        calculateCurrentPortfolioValue_def del: buyLoop.simps)

subsection \<open>The two labels analyzers\<close>

lemma findIndex_shared:
  "findIndex (\<lambda>priorityLabel. js_includes (toLowerCase ''Staker'') (toLowerCase priorityLabel))
     LABEL_PRIORITY_local = Some 11"
  "findIndex (\<lambda>priorityLabel. js_includes (toLowerCase ''OpenSea User'') (toLowerCase priorityLabel))
     LABEL_PRIORITY_local = Some 13"
  by (simp_all add: LABEL_PRIORITY_local_def toLowerCase_def lowerChar_def)

lemma priority_local_nth:
  "LABEL_PRIORITY_local ! 11 = ''Staker''" "LABEL_PRIORITY_local ! 13 = ''OpenSea User''"
  "length LABEL_PRIORITY_local = 14"
  by (simp_all add: LABEL_PRIORITY_local_def)

lemma labelLoop_shared_staker:
  assumes "set labelNames \<subseteq> {Some ''Staker'', Some ''OpenSea User''}"
  shows "labelLoop labelNames (Some ''Staker'', 11) = Inr (Some ''Staker'', 11)"
  using assms
  by (induction labelNames) (auto simp: findIndex_shared priority_local_nth)

lemma labelLoop_shared_opensea:
  assumes "set labelNames \<subseteq> {Some ''Staker'', Some ''OpenSea User''}"
  shows "labelLoop labelNames (Some ''OpenSea User'', 13) =
           Inr (if Some ''Staker'' \<in> set labelNames then (Some ''Staker'', 11)
                else (Some ''OpenSea User'', 13))"
  using assms
  by (induction labelNames)
     (auto simp: findIndex_shared priority_local_nth labelLoop_shared_staker)

lemma labelLoop_shared:
  assumes "set labelNames \<subseteq> {Some ''Staker'', Some ''OpenSea User''}"
  shows "labelLoop labelNames (None, 14) =
           Inr (if Some ''Staker'' \<in> set labelNames then (Some ''Staker'', 11)
                else if Some ''OpenSea User'' \<in> set labelNames then (Some ''OpenSea User'', 13)
                else (None, 14))"
  using assms
  by (induction labelNames)
     (auto simp: findIndex_shared priority_local_nth labelLoop_shared_staker
        labelLoop_shared_opensea)

lemma not_member_shared:
  assumes "set strings \<subseteq> {Some ''Staker'', Some ''OpenSea User''}"
      and "p \<noteq> ''Staker''" and "p \<noteq> ''OpenSea User''"
  shows "(Some p \<in> set strings) = False"
  using assms by auto

lemma firstIncluded_shared:
  assumes "set strings \<subseteq> {Some ''Staker'', Some ''OpenSea User''}"
  shows "firstIncluded LABEL_PRIORITY strings =
           (if Some ''Staker'' \<in> set strings then Some ''Staker''
            else if Some ''OpenSea User'' \<in> set strings then Some ''OpenSea User''
            else None)"
  unfolding LABEL_PRIORITY_def
  by (simp add: not_member_shared[OF assms])

lemma labels_agree_on_shared:
  assumes "set (map lbl_label response) \<subseteq> {Some ''Staker'', Some ''OpenSea User''}"
  shows "analyzeLabels (Inr (Some response)) = analyzeLabels_prd (Inr (Some response))"
  unfolding analyzeLabels_def labelsTry_def analyzeLabels_prd_def labelsTry_prd_def
  by (simp add: labelLoop_shared[OF assms] firstIncluded_shared[OF assms] priority_local_nth)

text \<open>
  Claim C10, as amended. The two implementations of the labels analyzer return the same
  result when the upstream call is rejected, when the response is no array or is empty,
  and when every label of the response is one of the two that both priority lists hold,
  \<open>Staker\<close> and \<open>OpenSea User\<close>. They are not equivalent on every list of labels.
\<close>

theorem labels_analyzers_agree_on_shared_labels:
  "analyzeLabels (Inl e) = analyzeLabels_prd (Inl e) \<and>
   analyzeLabels (Inr None) = analyzeLabels_prd (Inr None) \<and>
   analyzeLabels (Inr (Some [])) = analyzeLabels_prd (Inr (Some [])) \<and>
   (set (map lbl_label response) \<subseteq> {Some ''Staker'', Some ''OpenSea User''} \<longrightarrow>
      analyzeLabels (Inr (Some response)) = analyzeLabels_prd (Inr (Some response)))"
proof -
  have 1: "analyzeLabels (Inl e) = analyzeLabels_prd (Inl e)"
    by (simp add: labels_upstream_failure)
  have 2: "analyzeLabels (Inr None) = analyzeLabels_prd (Inr None)"
    by (simp add: analyzeLabels_def labelsTry_def analyzeLabels_prd_def labelsTry_prd_def)
  have 3: "analyzeLabels (Inr (Some [])) = analyzeLabels_prd (Inr (Some []))"
    by (simp add: analyzeLabels_def labelsTry_def analyzeLabels_prd_def labelsTry_prd_def)
  show ?thesis
    using 1 2 3 labels_agree_on_shared by blast
qed

theorem labels_analyzers_agree_on_shared_labels_witness:
  "set (map lbl_label [\<lparr>lbl_label = Some ''OpenSea User'', lbl_category = None\<rparr>,
                       \<lparr>lbl_label = Some ''Staker'', lbl_category = None\<rparr>])
     \<subseteq> {Some ''Staker'', Some ''OpenSea User''} \<and>
   analyzeLabels (Inr (Some [\<lparr>lbl_label = Some ''OpenSea User'', lbl_category = None\<rparr>,
                             \<lparr>lbl_label = Some ''Staker'', lbl_category = None\<rparr>]))
     = analyzeLabels_prd (Inr (Some [\<lparr>lbl_label = Some ''OpenSea User'', lbl_category = None\<rparr>,
                                     \<lparr>lbl_label = Some ''Staker'', lbl_category = None\<rparr>])) \<and>
   analyzeLabels_prd (Inr (Some [\<lparr>lbl_label = Some ''OpenSea User'', lbl_category = None\<rparr>,
                                 \<lparr>lbl_label = Some ''Staker'', lbl_category = None\<rparr>]))
     = labelsSuccess ''Staker''"
proof -
  have h: "set (map lbl_label [\<lparr>lbl_label = Some ''OpenSea User'', lbl_category = None\<rparr>,
                             \<lparr>lbl_label = Some ''Staker'', lbl_category = None\<rparr>])
             \<subseteq> {Some ''Staker'', Some ''OpenSea User''}"
    by simp
  have v: "analyzeLabels_prd (Inr (Some [\<lparr>lbl_label = Some ''OpenSea User'', lbl_category = None\<rparr>,
                                 \<lparr>lbl_label = Some ''Staker'', lbl_category = None\<rparr>]))
             = labelsSuccess ''Staker''"
    by (simp add: analyzeLabels_prd_def labelsTry_prd_def LABEL_PRIORITY_def)
  show ?thesis
    using h v labels_analyzers_agree_on_shared_labels[where
        response = "[\<lparr>lbl_label = Some ''OpenSea User'', lbl_category = None\<rparr>,
                     \<lparr>lbl_label = Some ''Staker'', lbl_category = None\<rparr>]"]
    by blast
qed

text \<open>
  The claim as stated fails: for the single label \<open>Whale\<close> the first implementation
  answers \<open>Whale\<close> and the second, whose list has no such entry, the fallback; for the
  single label \<open>Memecoin Whale\<close> the first answers \<open>Whale\<close>, which it finds inside, and
  the second \<open>Memecoin Whale\<close>.
\<close>

theorem labels_analyzers_differ_counterexample:
  "analyzeLabels (Inr (Some [\<lparr>lbl_label = Some ''Whale'', lbl_category = None\<rparr>]))
     = labelsSuccess ''Whale'' \<and>
   analyzeLabels_prd (Inr (Some [\<lparr>lbl_label = Some ''Whale'', lbl_category = None\<rparr>]))
     = labelsFallback \<and>
   analyzeLabels (Inr (Some [\<lparr>lbl_label = Some ''Memecoin Whale'', lbl_category = None\<rparr>]))
     = labelsSuccess ''Whale'' \<and>
   analyzeLabels_prd (Inr (Some [\<lparr>lbl_label = Some ''Memecoin Whale'', lbl_category = None\<rparr>]))
     = labelsSuccess ''Memecoin Whale'' \<and>
   labelsSuccess ''Whale'' \<noteq> labelsFallback \<and>
   labelsSuccess ''Whale'' \<noteq> labelsSuccess ''Memecoin Whale''"
proof -
  have i: "findIndex (\<lambda>priorityLabel. js_includes (toLowerCase ''Whale'') (toLowerCase priorityLabel))
             LABEL_PRIORITY_local = Some 0"
          "findIndex (\<lambda>priorityLabel. js_includes (toLowerCase ''Memecoin Whale'')
                                        (toLowerCase priorityLabel))
             LABEL_PRIORITY_local = Some 0"
    by (simp_all add: LABEL_PRIORITY_local_def toLowerCase_def lowerChar_def)
  have n: "LABEL_PRIORITY_local ! 0 = ''Whale''"
    by (simp add: LABEL_PRIORITY_local_def)
  have a: "analyzeLabels (Inr (Some [\<lparr>lbl_label = Some ''Whale'', lbl_category = None\<rparr>]))
             = labelsSuccess ''Whale''"
          "analyzeLabels (Inr (Some [\<lparr>lbl_label = Some ''Memecoin Whale'', lbl_category = None\<rparr>]))
             = labelsSuccess ''Whale''"
    by (simp_all add: analyzeLabels_def labelsTry_def i n priority_local_nth)
  have b: "analyzeLabels_prd (Inr (Some [\<lparr>lbl_label = Some ''Whale'', lbl_category = None\<rparr>]))
             = labelsFallback"
          "analyzeLabels_prd (Inr (Some [\<lparr>lbl_label = Some ''Memecoin Whale'', lbl_category = None\<rparr>]))
             = labelsSuccess ''Memecoin Whale''"
    by (simp_all add: analyzeLabels_prd_def labelsTry_prd_def LABEL_PRIORITY_def)
  have c: "labelsSuccess ''Whale'' \<noteq> labelsFallback"
          "labelsSuccess ''Whale'' \<noteq> labelsSuccess ''Memecoin Whale''"
    by (simp_all add: labelsSuccess_def labelsFallback_def)
  show ?thesis using a b c by blast
qed

end
